theory Spec2Isabelle
  imports Main "HOL-Library.AList"
begin

section \<open>Strings as Python uses them\<close>

text \<open>
  Strings are lists of 8-bit characters; the character predicates below are Python's
  \<^verbatim>\<open>str.isspace\<close>, \<^verbatim>\<open>str.isupper\<close>, \<^verbatim>\<open>str.islower\<close> and the
  \<^verbatim>\<open>\w\<close> class restricted to ASCII (a character above 127 is neither cased, nor a
  word character, nor white space here).
\<close>

definition newline :: char where
  "newline = CHR 0x0A"

definition is_space :: "char \<Rightarrow> bool" where
  "is_space c = (let n = (of_char c :: nat) in (9 \<le> n \<and> n \<le> 13) \<or> (28 \<le> n \<and> n \<le> 32))"

definition is_upper_char :: "char \<Rightarrow> bool" where
  "is_upper_char c = (let n = (of_char c :: nat) in 65 \<le> n \<and> n \<le> 90)"

definition is_lower_char :: "char \<Rightarrow> bool" where
  "is_lower_char c = (let n = (of_char c :: nat) in 97 \<le> n \<and> n \<le> 122)"

definition is_digit_char :: "char \<Rightarrow> bool" where
  "is_digit_char c = (let n = (of_char c :: nat) in 48 \<le> n \<and> n \<le> 57)"

definition is_word :: "char \<Rightarrow> bool" where
  "is_word c = (is_lower_char c \<or> is_upper_char c \<or> is_digit_char c \<or> c = CHR ''_'')"

definition lower_char :: "char \<Rightarrow> char" where
  "lower_char c = (if is_upper_char c then char_of ((of_char c :: nat) + 32) else c)"

definition lower :: "string \<Rightarrow> string" where
  "lower s = map lower_char s"

definition islower :: "string \<Rightarrow> bool" where
  "islower s = (list_ex is_lower_char s \<and> \<not> list_ex is_upper_char s)"

definition isupper :: "string \<Rightarrow> bool" where
  "isupper s = (list_ex is_upper_char s \<and> \<not> list_ex is_lower_char s)"

definition strip :: "string \<Rightarrow> string" where
  "strip s = rev (dropWhile is_space (rev (dropWhile is_space s)))"

fun startswith :: "string \<Rightarrow> string \<Rightarrow> bool" where
  "startswith s [] = True"
| "startswith [] (p # ps) = False"
| "startswith (c # cs) (p # ps) = (c = p \<and> startswith cs ps)"

definition endswith :: "string \<Rightarrow> string \<Rightarrow> bool" where
  "endswith s x = startswith (rev s) (rev x)"

text \<open>\<^verbatim>\<open>x in s\<close> on strings: \<open>x\<close> occurs in \<open>s\<close> as a contiguous substring.\<close>

fun str_in :: "string \<Rightarrow> string \<Rightarrow> bool" where
  "str_in x [] = (x = [])"
| "str_in x (c # cs) = (startswith (c # cs) x \<or> str_in x cs)"

text \<open>\<^verbatim>\<open>len(s.split('\n'))\<close>: one more than the number of newline characters.\<close>

definition split_lines_count :: "string \<Rightarrow> nat" where
  "split_lines_count s = Suc (length (filter (\<lambda>c. c = newline) s))"

text \<open>
  \<^verbatim>\<open>os.path.basename\<close> and the extension of \<^verbatim>\<open>os.path.splitext\<close> (POSIX): the
  extension starts at the last dot of the basename, unless only dots precede it.
\<close>

definition basename :: "string \<Rightarrow> string" where
  "basename p = rev (takeWhile (\<lambda>c. c \<noteq> CHR ''/'') (rev p))"

definition dirname :: "string \<Rightarrow> string" where
  "dirname p = rev (drop 1 (dropWhile (\<lambda>c. c \<noteq> CHR ''/'') (rev p)))"

definition splitext_ext :: "string \<Rightarrow> string" where
  "splitext_ext p =
     (let b = rev (basename p);
          suffix = takeWhile (\<lambda>c. c \<noteq> CHR ''.'') b;
          stem = drop (Suc (length suffix)) b
      in if length suffix < length b \<and> list_ex (\<lambda>c. c \<noteq> CHR ''.'') stem
         then CHR ''.'' # rev suffix else [])"

section \<open>The pattern language of the catalog\<close>

text \<open>
  The rules of \<^verbatim>\<open>generator/patterns.py\<close> are Python regular expressions. They are
  embedded as syntax trees, and matched by a backtracking matcher that returns every way
  to match at a position, in the order in which Python's engine tries them: the head of
  the list is the match Python reports.
\<close>

datatype citem = Lit char | Range char char | Word | Space

datatype re =
    Str string
  | Sym "citem list"
  | NSym "citem list"
  | Dot
  | Seq re re
  | Alt re re
  | Star re
  | LStar re
  | Cap string re
  | Look re
  | NLook re
  | Bol
  | Eol
  | WordB

fun citem_ok :: "citem \<Rightarrow> char \<Rightarrow> bool" where
  "citem_ok (Lit a) c = (c = a)"
| "citem_ok (Range lo hi) c = ((of_char lo :: nat) \<le> of_char c \<and> (of_char c :: nat) \<le> of_char hi)"
| "citem_ok Word c = is_word c"
| "citem_ok Space c = is_space c"

text \<open>
  A matcher state: the text already passed (reversed, so its head is the previous
  character), the text still ahead, and the groups bound so far.
\<close>

type_synonym mstate = "string \<times> string \<times> (string \<times> string) list"

fun remaining :: "mstate \<Rightarrow> nat" where
  "remaining (b, r, g) = length r"

fun set_cap :: "string \<Rightarrow> mstate \<Rightarrow> mstate \<Rightarrow> mstate" where
  "set_cap n (b, r, g) (b', r', g') = (b', r', AList.update n (take (length r - length r') r) g')"

fun strip_prefix :: "string \<Rightarrow> string \<Rightarrow> string \<Rightarrow> (string \<times> string) option" where
  "strip_prefix [] b r = Some (b, r)"
| "strip_prefix (p # ps) b [] = None"
| "strip_prefix (p # ps) b (c # r) = (if p = c then strip_prefix ps (c # b) r else None)"

fun rmatch :: "re \<Rightarrow> mstate \<Rightarrow> mstate list" where
  "rmatch (Str p) (b, r, g) =
     (case strip_prefix p b r of None \<Rightarrow> [] | Some (b', r') \<Rightarrow> [(b', r', g)])"
| "rmatch (Sym cs) (b, r, g) =
     (case r of [] \<Rightarrow> []
      | c # r' \<Rightarrow> if list_ex (\<lambda>i. citem_ok i c) cs then [(c # b, r', g)] else [])"
| "rmatch (NSym cs) (b, r, g) =
     (case r of [] \<Rightarrow> []
      | c # r' \<Rightarrow> if list_ex (\<lambda>i. citem_ok i c) cs then [] else [(c # b, r', g)])"
| "rmatch Dot (b, r, g) =
     (case r of [] \<Rightarrow> [] | c # r' \<Rightarrow> if c = newline then [] else [(c # b, r', g)])"
| "rmatch (Seq p q) s = concat (map (rmatch q) (rmatch p s))"
| "rmatch (Alt p q) s = rmatch p s @ rmatch q s"
| "rmatch (Star p) s =
     concat (map (\<lambda>s'. if remaining s' < remaining s then rmatch (Star p) s' else [])
                 (rmatch p s)) @ [s]"
| "rmatch (LStar p) s =
     s # concat (map (\<lambda>s'. if remaining s' < remaining s then rmatch (LStar p) s' else [])
                     (rmatch p s))"
| "rmatch (Cap n p) s = map (set_cap n s) (rmatch p s)"
| "rmatch (Look p) s =
     (case rmatch p s of [] \<Rightarrow> [] | (b', r', g') # _ \<Rightarrow> [(fst s, fst (snd s), g')])"
| "rmatch (NLook p) s = (case rmatch p s of [] \<Rightarrow> [s] | _ # _ \<Rightarrow> [])"
| "rmatch Bol (b, r, g) = (if b = [] then [(b, r, g)] else [])"
| "rmatch Eol (b, r, g) = (if r = [] \<or> r = [newline] then [(b, r, g)] else [])"
| "rmatch WordB (b, r, g) =
     (if (case b of [] \<Rightarrow> False | c # _ \<Rightarrow> is_word c) \<noteq> (case r of [] \<Rightarrow> False | c # _ \<Rightarrow> is_word c)
      then [(b, r, g)] else [])"

text \<open>Derived forms: \<^verbatim>\<open>p+\<close>, \<^verbatim>\<open>p?\<close>, concatenation and alternation of several parts.\<close>

definition Plus :: "re \<Rightarrow> re" where
  "Plus p = Seq p (Star p)"

definition Opt :: "re \<Rightarrow> re" where
  "Opt p = Alt p (Str [])"

fun cat :: "re list \<Rightarrow> re" where
  "cat [] = Str []"
| "cat [p] = p"
| "cat (p # ps) = Seq p (cat ps)"

fun alts :: "re list \<Rightarrow> re" where
  "alts [] = NSym [] "
| "alts [p] = p"
| "alts (p # ps) = Alt p (alts ps)"

text \<open>The names of a rule's groups, in the order of their opening parentheses.\<close>

fun group_names_raw :: "re \<Rightarrow> string list" where
  "group_names_raw (Seq p q) = group_names_raw p @ group_names_raw q"
| "group_names_raw (Alt p q) = group_names_raw p @ group_names_raw q"
| "group_names_raw (Star p) = group_names_raw p"
| "group_names_raw (LStar p) = group_names_raw p"
| "group_names_raw (Cap n p) = n # group_names_raw p"
| "group_names_raw (Look p) = group_names_raw p"
| "group_names_raw (NLook p) = group_names_raw p"
| "group_names_raw _ = []"

definition group_names :: "re \<Rightarrow> string list" where
  "group_names p = rev (remdups (rev (group_names_raw p)))"

subsection \<open>Match objects, \<^verbatim>\<open>search\<close> and \<^verbatim>\<open>finditer\<close>\<close>

datatype py_error = IndexError | TypeError | OSError | UnicodeDecodeError | ReError

record match =
  m_text :: string
  m_caps :: "(string \<times> string) list"
  m_names :: "string list"

definition mk_match :: "re \<Rightarrow> string \<Rightarrow> mstate \<Rightarrow> match" where
  "mk_match p r s = \<lparr>m_text = take (length r - remaining s) r, m_caps = snd (snd s),
                      m_names = group_names p\<rparr>"

text \<open>
  \<^verbatim>\<open>m.groupdict()\<close>, \<^verbatim>\<open>m.group(name)\<close> and \<^verbatim>\<open>m.group(i)\<close>. A group that took no part
  in the match is \<open>None\<close>; a name or an index the rule does not have raises IndexError.
\<close>

definition groupdict :: "match \<Rightarrow> (string \<times> string option) list" where
  "groupdict m = map (\<lambda>n. (n, map_of (m_caps m) n)) (m_names m)"

definition group_named :: "match \<Rightarrow> string \<Rightarrow> py_error + string option" where
  "group_named m n = (if n \<in> set (m_names m) then Inr (map_of (m_caps m) n) else Inl IndexError)"

definition group_num :: "match \<Rightarrow> nat \<Rightarrow> py_error + string option" where
  "group_num m i =
     (if i = 0 then Inr (Some (m_text m))
      else if i \<le> length (m_names m) then Inr (map_of (m_caps m) (m_names m ! (i - 1)))
      else Inl IndexError)"

text \<open>
  The matches that start at one position: the first one and, when that one is empty,
  the first non-empty one after it (Python retries the position and must advance).
  The number returned is the length of the last non-empty match, 0 if there is none.
\<close>

definition matches_here :: "re \<Rightarrow> string \<Rightarrow> string \<Rightarrow> match list \<times> nat" where
  "matches_here p b r =
     (case rmatch p (b, r, []) of
        [] \<Rightarrow> ([], 0)
      | s1 # rest \<Rightarrow>
          if remaining s1 < length r then ([mk_match p r s1], length r - remaining s1)
          else (case filter (\<lambda>s. remaining s < length r) rest of
                  [] \<Rightarrow> ([mk_match p r s1], 0)
                | s2 # _ \<Rightarrow> ([mk_match p r s1, mk_match p r s2], length r - remaining s2)))"

fun scan :: "re \<Rightarrow> string \<Rightarrow> string \<Rightarrow> nat \<Rightarrow> match list" where
  "scan p b [] skip = (if skip = 0 then fst (matches_here p b []) else [])"
| "scan p b (c # cs) skip =
     (if skip = 0
      then (case matches_here p b (c # cs) of (ms, k) \<Rightarrow> ms @ scan p (c # b) cs (k - 1))
      else scan p (c # b) cs (skip - 1))"

definition finditer :: "re \<Rightarrow> string \<Rightarrow> match list" where
  "finditer p s = scan p [] s 0"

fun search_from :: "re \<Rightarrow> string \<Rightarrow> string \<Rightarrow> match option" where
  "search_from p b [] = (case rmatch p (b, [], []) of [] \<Rightarrow> None | s # _ \<Rightarrow> Some (mk_match p [] s))"
| "search_from p b (c # cs) =
     (case rmatch p (b, c # cs, []) of
        [] \<Rightarrow> search_from p (c # b) cs
      | s # _ \<Rightarrow> Some (mk_match p (c # cs) s))"

definition search :: "re \<Rightarrow> string \<Rightarrow> match option" where
  "search p s = search_from p [] s"

section \<open>The catalog: \<^verbatim>\<open>PATTERNS\<close> of \<^verbatim>\<open>generator/patterns.py\<close>\<close>

definition ws :: re where
  "ws = Star (Sym [Space])"

definition ws1 :: re where
  "ws1 = Plus (Sym [Space])"

definition word1 :: re where
  "word1 = Plus (Sym [Word])"

definition quote :: re where
  "quote = Sym [Lit (CHR 0x27), Lit (CHR 0x22)]"

definition not_quote :: re where
  "not_quote = NSym [Lit (CHR 0x27), Lit (CHR 0x22)]"

definition modchar :: re where
  "modchar = Sym [Range CHR ''a'' CHR ''z'', Range CHR ''A'' CHR ''Z'', Range CHR ''0'' CHR ''9'',
                  Lit CHR ''_'', Lit CHR ''.'']"

definition js_ext :: re where
  "js_ext = alts [Str ''js'', Str ''jsx'', Str ''ts'', Str ''tsx'']"

definition decorators :: re where
  "decorators = Star (cat [Str ''@'', word1, Opt (cat [Str ''('', LStar Dot, Str '')'']), ws1])"

definition visibility5 :: re where
  "visibility5 = Star (cat [alts [Str ''public'', Str ''private'', Str ''protected'',
                                  Str ''internal'', Str ''friend''], ws1])"

subsection \<open>import\<close>

definition import_python :: re where
  "import_python = cat [Bol,
     Alt (cat [Str ''from'', ws1, Cap ''module'' (Plus modchar), ws1, Str ''import'', ws1,
               Cap ''imports'' (Plus (NSym [Lit CHR ''#'', Lit newline]))])
         (cat [Str ''import'', ws1,
               Cap ''module2'' (cat [Plus modchar, Star (cat [ws, Str '','', ws, Plus modchar])])]),
     Opt (cat [ws, Str ''#'', Star (NSym [Lit newline])]),
     Eol]"

definition import_web :: re where
  "import_web = alts [
     cat [Str ''import'', ws1, LStar Dot, Str ''from'', ws1, quote,
          Cap ''module'' (Plus not_quote), quote],
     cat [Str ''require'', ws, Str ''('', quote, Cap ''module2'' (Plus not_quote), quote, Str '')''],
     cat [Str ''import'', ws1, Opt (cat [Str ''static'', ws1]),
          Cap ''module3'' (cat [Plus modchar, Opt (cat [Str ''.'', Sym [Lit CHR ''*'']])])],
     cat [Str ''require'', ws1, quote, Cap ''module4'' (Plus not_quote), quote],
     cat [Str ''import'', ws1, quote, Cap ''module5'' (Plus not_quote), quote]]"

definition import_system :: re where
  "import_system = alts [
     cat [Str ''#include'', ws, Sym [Lit CHR ''<'', Lit (CHR 0x22)],
          Cap ''module'' (Plus (NSym [Lit CHR ''>'', Lit (CHR 0x22)])),
          Sym [Lit CHR ''>'', Lit (CHR 0x22)]],
     cat [Str ''using'', ws1, Opt (cat [Str ''static'', ws1]), Cap ''module2'' (Plus modchar),
          ws, Str '';''],
     cat [Str ''namespace'', ws1,
          Cap ''module3'' (Plus (Sym [Range CHR ''a'' CHR ''z'', Range CHR ''A'' CHR ''Z'',
                                      Range CHR ''0'' CHR ''9'', Lit CHR ''_'', Lit (CHR 0x5C)]))],
     cat [Str ''import'', ws1, Cap ''module4'' (Plus (NSym [Lit newline, Lit CHR '';''])),
          ws, Opt (Str '';'')],
     cat [Str ''#import'', ws, Sym [Lit CHR ''<'', Lit (CHR 0x22)],
          Cap ''module5'' (Plus (NSym [Lit CHR ''>'', Lit (CHR 0x22)])),
          Sym [Lit CHR ''>'', Lit (CHR 0x22)]]]"

subsection \<open>class\<close>

definition class_python :: re where
  "class_python = cat [decorators, Str ''class'', ws1, Cap ''name'' word1,
     Opt (cat [Str ''('', Cap ''base'' (Plus (NSym [Lit CHR '')''])), Str '')'']),
     ws, Str '':'',
     Opt (cat [ws, quote, Cap ''docstring'' (Star not_quote), quote])]"

definition class_web :: re where
  "class_web = alts [
     cat [Opt (cat [Str ''export'', ws1]), Opt (cat [Str ''abstract'', ws1]),
          Str ''class'', ws1, Cap ''name'' word1,
          Opt (cat [ws, Alt (Str ''extends'') (Str ''implements''), ws1,
                    Cap ''base'' (Plus (NSym [Lit CHR ''{'', Lit CHR ''<'']))]),
          Opt (cat [ws, Str ''<'', Plus (NSym [Lit CHR ''>'']), Str ''>'']),
          ws, Str ''{''],
     cat [Opt (cat [Str ''export'', ws1]), alts [Str ''const'', Str ''let'', Str ''var''], ws1,
          Cap ''name2'' word1, ws, Str ''='', ws, Str ''class'',
          Opt (cat [ws1, Str ''extends'', ws1, Cap ''base2'' (Plus (NSym [Lit CHR ''{'']))]),
          ws, Str ''{''],
     cat [Opt (cat [Str ''export'', ws1]), Str ''class'', ws1, Cap ''name3'' word1, ws,
          Opt (cat [Str ''<'', Plus (NSym [Lit CHR ''>'']), Str ''>'']), ws,
          Alt (Str ''extends'') (Str ''implements''), ws1,
          Opt (Cap ''base3'' (Plus (NSym [Lit CHR ''{'']))), ws, Str ''{'']]"

definition class_system :: re where
  "class_system = alts [
     cat [visibility5, Opt (cat [Str ''abstract'', ws1]), Opt (cat [Str ''partial'', ws1]),
          Opt (cat [Str ''sealed'', ws1]),
          alts [Str ''class'', Str ''struct'', Str ''enum'', Str ''union'', Str ''@interface'',
                Str ''@implementation''],
          ws1, Cap ''name'' word1,
          Opt (cat [ws, alts [cat [Str '':'', ws], cat [Str ''extends'', ws1],
                              cat [Str ''implements'', ws1]],
                    Cap ''base'' (Plus (NSym [Lit CHR ''{'', Lit CHR '';'']))]),
          Opt (cat [ws, Str ''{''])],
     cat [Alt (Str ''@interface'') (Str ''@implementation''), ws1, Cap ''name2'' word1,
          Opt (cat [ws, Str '':'', ws, Cap ''base2'' (Plus (NSym [Lit CHR ''{'']))]),
          ws, Opt (Str ''{'')]]"

subsection \<open>function\<close>

definition function_python :: re where
  "function_python = cat [decorators, Str ''def'', ws1, Cap ''name'' word1, ws, Str ''('',
     Cap ''params'' (Star (NSym [Lit CHR '')''])), Str '')'',
     Opt (cat [ws, Str ''->'', ws, Cap ''return'' (Plus (NSym [Lit CHR '':'', Lit CHR ''#'']))]),
     ws, Str '':'',
     Opt (cat [ws, quote, Cap ''docstring'' (Star not_quote), quote])]"

definition function_web :: re where
  "function_web = alts [
     cat [Opt (cat [Str ''export'', ws1]), Opt (cat [Str ''async'', ws1]), Str ''function'', ws,
          Cap ''name'' word1, ws,
          Opt (cat [Str ''<'', Plus (NSym [Lit CHR ''>'']), Str ''>'']), ws, Str ''('',
          Cap ''params'' (Star (NSym [Lit CHR '')''])), Str '')'',
          Opt (cat [ws, Str '':'', ws, Cap ''return'' (Plus (NSym [Lit CHR ''{'', Lit CHR ''='']))]),
          ws, Str ''{''],
     cat [Opt (cat [Str ''export'', ws1]), alts [Str ''const'', Str ''let'', Str ''var''], ws1,
          Cap ''name2'' word1, ws, Str ''='', ws, Opt (cat [Str ''async'', ws1]),
          Alt (cat [Str ''function'', ws, Opt (Str ''*'')])
              (cat [Str ''('', Star (NSym [Lit CHR '')'']), Str '')'', ws, Str ''=>''])],
     cat [Opt (alts [Str ''public'', Str ''private'', Str ''protected'']), ws,
          Opt (cat [Str ''static'', ws1]), Opt (cat [Str ''async'', ws1]),
          Cap ''name3'' word1, ws, Str ''('',
          Cap ''params2'' (Star (NSym [Lit CHR '')''])), Str '')'',
          Opt (cat [ws, Str '':'', ws, Cap ''return2'' (Plus (NSym [Lit CHR ''{'', Lit CHR '';'']))]),
          ws, Opt (Str ''{'')]]"

definition function_system :: re where
  "function_system = alts [
     cat [visibility5, Opt (cat [Str ''static'', ws1]), Opt (cat [Str ''virtual'', ws1]),
          Opt (cat [Str ''override'', ws1]), Opt (cat [Str ''async'', ws1]),
          Opt (cat [Plus (Sym [Word, Lit CHR '':'']), ws1]),
          Cap ''name'' word1, ws, Str ''('',
          Cap ''params'' (Star (NSym [Lit CHR '')''])), Str '')'',
          Opt (cat [ws, alts [Str ''const'', Str ''override'', Str ''final'', Str ''noexcept'']]),
          ws, Opt (cat [Str ''{'', ws])],
     cat [Sym [Lit CHR ''-'', Lit CHR ''+''], ws, Str ''('',
          Cap ''return'' (Plus (NSym [Lit CHR '')''])), Str '')'', Cap ''name2'' word1,
          Star (cat [Str '':'', ws, Str ''('', Cap ''paramtype'' (Plus (NSym [Lit CHR '')''])),
                     Str '')'', Cap ''param'' word1])]]"

subsection \<open>common\<close>

definition common_interface :: re where
  "common_interface = cat [Opt (cat [Str ''export'', ws1]), Str ''interface'', ws1,
     Cap ''name'' word1,
     Opt (cat [ws1, Str ''extends'', ws1, Cap ''base'' (Plus (NSym [Lit CHR ''{'']))]),
     ws, Str ''{'',
     Star (Alt (NSym [Lit CHR ''{'', Lit CHR ''}''])
               (cat [Str ''{'', Star (NSym [Lit CHR ''{'', Lit CHR ''}'']), Str ''}''])),
     Str ''}'']"

definition common_jsx_component :: re where
  "common_jsx_component = cat [Str ''<'',
     Cap ''name'' (cat [Sym [Range CHR ''A'' CHR ''Z''], Star (Sym [Word])]),
     Opt (cat [ws1, Plus (cat [NLook (Str ''/>''), NSym [Lit CHR ''>'']])]),
     Str ''>'']"

definition common_react_hook :: re where
  "common_react_hook = cat [WordB, Str ''use'', Sym [Range CHR ''A'' CHR ''Z''], word1, WordB,
     Look (cat [ws, Str ''(''])]"

definition common_next_api :: re where
  "common_next_api = cat [Str ''export'', ws1, Opt (cat [Str ''async'', ws1]), Str ''function'',
     ws1, alts [Str ''getStaticProps'', Str ''getStaticPaths'', Str ''getServerSideProps''],
     ws, Str ''('']"

definition common_next_page :: re where
  "common_next_page = cat [Alt (Str ''pages'') (Str ''app''), Str ''/'', NLook (Str ''_''),
     Plus (NSym [Lit CHR ''/'']),
     Star (cat [Str ''/'', NLook (Str ''_''), Plus (NSym [Lit CHR ''/''])]),
     Str ''.'', js_ext, Eol]"

definition common_next_layout :: re where
  "common_next_layout = cat [
     alts [Str ''layout'', Str ''page'', Str ''loading'', Str ''error'', Str ''not-found''],
     Str ''.'', js_ext, Eol]"

definition common_styled_component :: re where
  "common_styled_component = cat [Opt (cat [Str ''const'', ws1]), Cap ''name'' word1, ws,
     Str ''='', ws, Str ''styled'',
     Alt (cat [Str ''.'', Cap ''element'' word1])
         (cat [Str ''('', Plus (Sym [Word, Lit CHR ''.'']), Str '')'']),
     Str ''`'', Star (NSym [Lit CHR ''`'']), Str ''`'']"

subsection \<open>unity\<close>

definition unity_component :: re where
  "unity_component = cat [Opt (cat [Str ''public'', ws1]), Str ''class'', ws1, word1, ws,
     Str '':'', ws, alts [Str ''MonoBehaviour'', Str ''ScriptableObject'', Str ''EditorWindow'']]"

definition unity_lifecycle :: re where
  "unity_lifecycle = cat [
     Opt (alts [cat [Str ''private'', ws1], cat [Str ''protected'', ws1], cat [Str ''public'', ws1]]),
     Opt (cat [Str ''virtual'', ws1]), Opt (cat [Str ''override'', ws1]), Str ''void'', ws1,
     alts [Str ''Awake'', Str ''Start'', Str ''Update'', Str ''FixedUpdate'', Str ''LateUpdate'',
           Str ''OnEnable'', Str ''OnDisable'', Str ''OnDestroy'', Str ''OnTriggerEnter'',
           Str ''OnTriggerExit'', Str ''OnCollisionEnter'', Str ''OnCollisionExit'',
           Str ''OnMouseDown'', Str ''OnMouseUp'', Str ''OnGUI''],
     ws, Str ''('', Star (NSym [Lit CHR '')'']), Str '')'']"

definition unity_attribute :: re where
  "unity_attribute = cat [Str ''['', ws,
     alts [Str ''SerializeField'', Str ''Header'', Str ''Tooltip'', Str ''Range'',
           Str ''RequireComponent'', Str ''ExecuteInEditMode'', Str ''CreateAssetMenu'',
           Str ''MenuItem''],
     Opt (cat [ws, Str ''('', ws, Cap ''params'' (Plus (NSym [Lit CHR '')''])), ws, Str '')'']),
     ws, Str '']'']"

definition unity_type :: re where
  "unity_type = cat [WordB,
     alts [Str ''GameObject'', Str ''Transform'', Str ''Rigidbody'', Str ''Collider'',
           Str ''AudioSource'', Str ''Camera'', Str ''Light'', Str ''Animator'',
           Str ''ParticleSystem'', Str ''Canvas'', Str ''Image'', Str ''Text'', Str ''Button'',
           cat [Str ''Vector'', Sym [Lit CHR ''2'', Lit CHR ''3'']], Str ''Quaternion''],
     WordB]"

definition unity_event :: re where
  "unity_event = cat [
     Opt (alts [cat [Str ''public'', ws1], cat [Str ''private'', ws1], cat [Str ''protected'', ws1]]),
     Str ''UnityEvent'', ws, Str ''<'', ws, Cap ''type'' (Star (NSym [Lit CHR ''>''])), ws,
     Str ''>'', ws1, Cap ''name'' word1]"

definition unity_field :: re where
  "unity_field = cat [
     Opt (alts [cat [Str ''public'', ws1], cat [Str ''private'', ws1], cat [Str ''protected'', ws1],
                cat [Str ''internal'', ws1]]),
     Opt (cat [Str ''[SerializeField]'', ws]),
     Cap ''type'' (cat [word1, Opt (cat [Str ''<'', Plus (NSym [Lit CHR ''>'']), Str ''>''])]),
     ws1, Cap ''name'' word1, ws,
     Opt (cat [Str ''='', ws, Cap ''value'' (Plus (NSym [Lit CHR '';'']))]),
     Str '';'']"

subsection \<open>The compiled catalog\<close>

text \<open>
  \<^verbatim>\<open>compiled_patterns[kind][family]\<close>, \<^verbatim>\<open>compiled_patterns['common'][rule]\<close> and
  \<^verbatim>\<open>compiled_patterns['unity'][rule]\<close>. The rules \<^verbatim>\<open>method\<close>, \<^verbatim>\<open>variable\<close>,
  \<^verbatim>\<open>error\<close> and \<^verbatim>\<open>next_middleware\<close> of the \<^verbatim>\<open>common\<close> bucket are read by no
  analyzer and are left out.
\<close>

datatype pattern_type = PImport | PClass | PFunction

datatype pattern_group = Python | Web | System

datatype common_key = K_interface | K_jsx_component | K_react_hook | K_next_api | K_next_page
  | K_next_layout | K_styled_component

datatype unity_key = U_component | U_lifecycle | U_attribute | U_type | U_event | U_field

record compiled_patterns =
  by_kind :: "pattern_type \<Rightarrow> pattern_group \<Rightarrow> re"
  common :: "common_key \<Rightarrow> re"
  unity :: "unity_key \<Rightarrow> re"

fun PATTERNS_kind :: "pattern_type \<Rightarrow> pattern_group \<Rightarrow> re" where
  "PATTERNS_kind PImport Python = import_python"
| "PATTERNS_kind PImport Web = import_web"
| "PATTERNS_kind PImport System = import_system"
| "PATTERNS_kind PClass Python = class_python"
| "PATTERNS_kind PClass Web = class_web"
| "PATTERNS_kind PClass System = class_system"
| "PATTERNS_kind PFunction Python = function_python"
| "PATTERNS_kind PFunction Web = function_web"
| "PATTERNS_kind PFunction System = function_system"

fun PATTERNS_common :: "common_key \<Rightarrow> re" where
  "PATTERNS_common K_interface = common_interface"
| "PATTERNS_common K_jsx_component = common_jsx_component"
| "PATTERNS_common K_react_hook = common_react_hook"
| "PATTERNS_common K_next_api = common_next_api"
| "PATTERNS_common K_next_page = common_next_page"
| "PATTERNS_common K_next_layout = common_next_layout"
| "PATTERNS_common K_styled_component = common_styled_component"

fun PATTERNS_unity :: "unity_key \<Rightarrow> re" where
  "PATTERNS_unity U_component = unity_component"
| "PATTERNS_unity U_lifecycle = unity_lifecycle"
| "PATTERNS_unity U_attribute = unity_attribute"
| "PATTERNS_unity U_type = unity_type"
| "PATTERNS_unity U_event = unity_event"
| "PATTERNS_unity U_field = unity_field"

text \<open>
  Modelled from the spec: \<^verbatim>\<open>PatternsAnalyzer\<close> (module \<^verbatim>\<open>patterns_analyzer\<close>) is
  not among the sources. Section 4.2 has it compile every rule of the catalog once, and
  the older \<^verbatim>\<open>_compile_patterns\<close> kept in \<^verbatim>\<open>generator/prompts/ai_rules_prompt.py\<close>
  calls \<^verbatim>\<open>re.compile(pattern)\<close> with no flags on each rule.
\<close>

definition catalog :: compiled_patterns where
  "catalog = \<lparr>by_kind = PATTERNS_kind, common = PATTERNS_common, unity = PATTERNS_unity\<rparr>"

section \<open>The project structure\<close>

text \<open>
  A structural record is a Python dict of strings: an association list in insertion
  order, a value \<open>None\<close> being Python's \<^verbatim>\<open>None\<close>. Of the keys of \<^verbatim>\<open>structure\<close>,
  those that no code writes after the initialisation are left out.
\<close>

type_synonym entry = "(string \<times> string option) list"

record directory_stats =
  total_files :: nat
  code_files :: nat
  stat_languages :: "(string \<times> nat) list"

record directory_pattern =
  path :: string
  name_pattern :: string
  purpose :: "string list"
  dp_languages :: "(string \<times> nat) list"
  dp_total_files :: nat
  dp_code_files :: nat

record patterns =
  pattern_imports :: "string list"
  configurations :: "entry list"
  code_organization :: "entry list"
  function_patterns :: "entry list"
  class_patterns :: "entry list"
  directory_patterns :: "directory_pattern list"

record project_structure =
  files :: "string list"
  dependencies :: "string \<rightharpoonup> bool"
  languages :: "string \<rightharpoonup> nat"
  config_files :: "string list"
  code_contents :: "string \<rightharpoonup> string"
  directory_structure :: "string \<rightharpoonup> string option"
  patterns :: patterns

definition initial_structure :: project_structure where
  "initial_structure = \<lparr>files = [], dependencies = Map.empty, languages = Map.empty,
     config_files = [], code_contents = Map.empty, directory_structure = Map.empty,
     patterns = \<lparr>pattern_imports = [], configurations = [], code_organization = [],
                  function_patterns = [], class_patterns = [], directory_patterns = []\<rparr>\<rparr>"

definition add_import :: "string \<Rightarrow> project_structure \<Rightarrow> project_structure" where
  "add_import module s =
     s\<lparr>dependencies := (dependencies s)(module \<mapsto> True),
       patterns := (patterns s)\<lparr>pattern_imports := pattern_imports (patterns s) @ [module]\<rparr>\<rparr>"

definition add_class_pattern :: "entry \<Rightarrow> project_structure \<Rightarrow> project_structure" where
  "add_class_pattern e s =
     s\<lparr>patterns := (patterns s)\<lparr>class_patterns := class_patterns (patterns s) @ [e]\<rparr>\<rparr>"

definition add_function_pattern :: "entry \<Rightarrow> project_structure \<Rightarrow> project_structure" where
  "add_function_pattern e s =
     s\<lparr>patterns := (patterns s)\<lparr>function_patterns := function_patterns (patterns s) @ [e]\<rparr>\<rparr>"

definition add_code_organization :: "entry \<Rightarrow> project_structure \<Rightarrow> project_structure" where
  "add_code_organization e s =
     s\<lparr>patterns := (patterns s)\<lparr>code_organization := code_organization (patterns s) @ [e]\<rparr>\<rparr>"

text \<open>
  The analyzers mutate \<^verbatim>\<open>structure\<close> in place and may raise: a call returns the
  structure as it stands when the call ends, and the exception if one left the call.
\<close>

type_synonym outcome = "project_structure \<times> py_error option"

fun for_each :: "('a \<Rightarrow> project_structure \<Rightarrow> outcome) \<Rightarrow> 'a list \<Rightarrow> project_structure \<Rightarrow> outcome" where
  "for_each f [] s = (s, None)"
| "for_each f (x # xs) s =
     (case f x s of (s', None) \<Rightarrow> for_each f xs s' | (s', Some e) \<Rightarrow> (s', Some e))"

definition and_then :: "outcome \<Rightarrow> (project_structure \<Rightarrow> outcome) \<Rightarrow> outcome" where
  "and_then r k = (case r of (s, None) \<Rightarrow> k s | (s, Some e) \<Rightarrow> (s, Some e))"

text \<open>\<^verbatim>\<open>v if v else d\<close> for an optional string.\<close>

definition or_else :: "string option \<Rightarrow> string \<Rightarrow> string" where
  "or_else v d = (case v of None \<Rightarrow> d | Some x \<Rightarrow> if x = [] then d else x)"

text \<open>\<^verbatim>\<open>next((v for k, v in groups.items() if v and P(k)), None)\<close>\<close>

fun first_truthy :: "(string \<Rightarrow> bool) \<Rightarrow> (string \<times> string option) list \<Rightarrow> string option" where
  "first_truthy P [] = None"
| "first_truthy P ((k, v) # rest) =
     (case v of
        None \<Rightarrow> first_truthy P rest
      | Some x \<Rightarrow> if x \<noteq> [] \<and> P k then Some x else first_truthy P rest)"

text \<open>\<^verbatim>\<open>[(key, f(groups[k]))] if k in groups and groups[k] else []\<close>\<close>

definition optional_field ::
  "(string \<times> string option) list \<Rightarrow> string \<Rightarrow> string \<Rightarrow> (string \<Rightarrow> string) \<Rightarrow> entry" where
  "optional_field groups k key f =
     (case map_of groups k of
        Some (Some x) \<Rightarrow> if x \<noteq> [] then [(key, Some (f x))] else []
      | _ \<Rightarrow> [])"

section \<open>\<^verbatim>\<open>analyzers.py\<close>: the module-level idiom analyzers\<close>

definition iface_step :: "string \<Rightarrow> match \<Rightarrow> project_structure \<Rightarrow> outcome" where
  "iface_step rel_path m s =
     (case group_num m 1 of
        Inl e \<Rightarrow> (s, Some e)
      | Inr name \<Rightarrow>
          (case group_num m 2 of
             Inl e \<Rightarrow> (s, Some e)
           | Inr base \<Rightarrow>
               (add_class_pattern [(''name'', name), (''type'', Some ''interface/type''),
                  (''inheritance'', Some (or_else (map_option strip base) [])),
                  (''file'', Some rel_path)] s, None)))"

definition jsx_step :: "string \<Rightarrow> match \<Rightarrow> project_structure \<Rightarrow> outcome" where
  "jsx_step rel_path m s =
     (case group_num m 1 of Inl e \<Rightarrow> (s, Some e)
      | Inr None \<Rightarrow> (s, Some TypeError)
      | Inr (Some []) \<Rightarrow> (s, Some IndexError)
      | Inr (Some (c # cs)) \<Rightarrow>
          if is_upper_char c
          then (add_class_pattern [(''name'', Some (c # cs)), (''type'', Some ''react_component''),
                  (''file'', Some rel_path)] s, None)
          else (s, None))"

definition named_step :: "string \<Rightarrow> string \<Rightarrow> match \<Rightarrow> entry" where
  "named_step ty rel_path m = [(''name'', Some (m_text m)), (''type'', Some ty), (''file'', Some rel_path)]"

definition next_page_step :: "string \<Rightarrow> match \<Rightarrow> project_structure \<Rightarrow> outcome" where
  "next_page_step rel_path m s =
     (case group_named m ''route'' of
        Inl e \<Rightarrow> (s, Some e)
      | Inr route \<Rightarrow>
          (case group_named m ''nested'' of
             Inl e \<Rightarrow> (s, Some e)
           | Inr nested \<Rightarrow>
               (add_code_organization [(''type'', Some ''next_page''), (''route'', route),
           (''nested'', nested), (''file'', Some rel_path)] s, None)))"

definition styled_step :: "string \<Rightarrow> match \<Rightarrow> project_structure \<Rightarrow> outcome" where
  "styled_step rel_path m s =
     (case group_named m ''element'' of Inl e \<Rightarrow> (s, Some e) | Inr el \<Rightarrow>
        (add_code_organization [(''type'', Some ''styled_component''),
           (''element'', Some (or_else el ''css'')), (''file'', Some rel_path)] s, None))"

definition analyze_web_patterns ::
  "string \<Rightarrow> string \<Rightarrow> project_structure \<Rightarrow> compiled_patterns \<Rightarrow> outcome" where
  "analyze_web_patterns content rel_path s0 cp =
     and_then (for_each (iface_step rel_path) (finditer (common cp K_interface) content) s0) (\<lambda>s1.
     and_then (for_each (jsx_step rel_path) (finditer (common cp K_jsx_component) content) s1) (\<lambda>s2.
     and_then (for_each (\<lambda>m s. (add_function_pattern (named_step ''react_hook'' rel_path m) s, None))
                 (finditer (common cp K_react_hook) content) s2) (\<lambda>s3.
     and_then
       (if str_in ''pages/'' rel_path \<or> str_in ''app/'' rel_path
        then
          and_then (for_each (\<lambda>m s. (add_function_pattern (named_step ''next_data_fetching'' rel_path m) s, None))
                      (finditer (common cp K_next_api) content) s3) (\<lambda>s4.
          and_then (case search (common cp K_next_page) rel_path of
                      None \<Rightarrow> (s4, None)
                    | Some m \<Rightarrow> next_page_step rel_path m s4) (\<lambda>s5.
            (case search (common cp K_next_layout) rel_path of
               None \<Rightarrow> (s5, None)
             | Some m \<Rightarrow> (add_code_organization [(''type'', Some ''next_layout''),
                            (''file'', Some rel_path)] s5, None))))
        else (s3, None)) (\<lambda>s6.
     for_each (styled_step rel_path) (finditer (common cp K_styled_component) content) s6))))"

definition attribute_step :: "string \<Rightarrow> match \<Rightarrow> project_structure \<Rightarrow> outcome" where
  "attribute_step rel_path m s =
     (case group_named m ''params'' of Inl e \<Rightarrow> (s, Some e) | Inr ps \<Rightarrow>
        (add_code_organization [(''type'', Some ''unity_attribute''), (''name'', Some (m_text m)),
           (''parameters'', Some (or_else ps [])), (''file'', Some rel_path)] s, None))"

definition event_step :: "string \<Rightarrow> match \<Rightarrow> project_structure \<Rightarrow> outcome" where
  "event_step rel_path m s =
     (case group_named m ''type'' of
        Inl e \<Rightarrow> (s, Some e)
      | Inr ty \<Rightarrow>
          (case group_named m ''name'' of
             Inl e \<Rightarrow> (s, Some e)
           | Inr name \<Rightarrow>
               (add_code_organization [(''type'', Some ''unity_event''), (''event_type'', ty),
           (''name'', name), (''file'', Some rel_path)] s, None)))"

definition field_step :: "string \<Rightarrow> match \<Rightarrow> project_structure \<Rightarrow> outcome" where
  "field_step rel_path m s =
     (case group_named m ''type'' of
        Inl e \<Rightarrow> (s, Some e)
      | Inr ty \<Rightarrow>
          (case group_named m ''name'' of
             Inl e \<Rightarrow> (s, Some e)
           | Inr name \<Rightarrow>
               (add_code_organization [(''type'', Some ''unity_field''), (''field_type'', ty),
           (''name'', name), (''file'', Some rel_path)] s, None)))"

definition analyze_unity_patterns ::
  "string \<Rightarrow> string \<Rightarrow> project_structure \<Rightarrow> compiled_patterns \<Rightarrow> outcome" where
  "analyze_unity_patterns content rel_path s0 cp =
     and_then (for_each (\<lambda>m s. (add_class_pattern (named_step ''unity_component'' rel_path m) s, None))
                 (finditer (unity cp U_component) content) s0) (\<lambda>s1.
     and_then (for_each (\<lambda>m s. (add_function_pattern (named_step ''unity_lifecycle'' rel_path m) s, None))
                 (finditer (unity cp U_lifecycle) content) s1) (\<lambda>s2.
     and_then (for_each (attribute_step rel_path) (finditer (unity cp U_attribute) content) s2) (\<lambda>s3.
     and_then (for_each (\<lambda>m s. (add_class_pattern (named_step ''unity_type'' rel_path m) s, None))
                 (finditer (unity cp U_type) content) s3) (\<lambda>s4.
     and_then (for_each (event_step rel_path) (finditer (unity cp U_event) content) s4) (\<lambda>s5.
     for_each (field_step rel_path) (finditer (unity cp U_field) content) s5)))))"

text \<open>The naming convention and the purposes of a directory, from its basename.\<close>

definition naming_convention :: "string \<Rightarrow> string" where
  "naming_convention dir_name =
     (if islower dir_name then ''lowercase''
      else if isupper dir_name then ''uppercase''
      else if CHR ''_'' \<in> set dir_name then ''snake_case''
      else if CHR ''-'' \<in> set dir_name then ''kebab-case''
      else ''mixed'')"

definition any_in :: "string list \<Rightarrow> string \<Rightarrow> bool" where
  "any_in xs s = list_ex (\<lambda>x. str_in x s) xs"

definition dir_purpose :: "string \<Rightarrow> string list" where
  "dir_purpose dir_name =
     (if any_in [''test'', ''spec'', ''mock''] (lower dir_name) then [''testing''] else []) @
     (if any_in [''util'', ''helper'', ''common'', ''shared''] (lower dir_name) then [''utilities''] else []) @
     (if any_in [''model'', ''entity'', ''domain''] (lower dir_name) then [''domain''] else []) @
     (if any_in [''controller'', ''handler'', ''service''] (lower dir_name) then [''business_logic''] else []) @
     (if any_in [''view'', ''template'', ''component''] (lower dir_name) then [''presentation''] else [])"

definition directory_step :: "string \<times> directory_stats \<Rightarrow> project_structure \<Rightarrow> project_structure" where
  "directory_step item s =
     (case item of (dir_path, stats) \<Rightarrow>
        if dir_path = [] then s
        else s\<lparr>patterns := (patterns s)\<lparr>directory_patterns := directory_patterns (patterns s) @
               [\<lparr>path = dir_path, name_pattern = naming_convention (basename dir_path),
                 purpose = dir_purpose (basename dir_path), dp_languages = stat_languages stats,
                 dp_total_files = total_files stats, dp_code_files = code_files stats\<rparr>]\<rparr>\<rparr>)"

definition analyze_directory_patterns ::
  "project_structure \<Rightarrow> (string \<times> directory_stats) list \<Rightarrow> project_structure" where
  "analyze_directory_patterns s dir_stats = foldl (\<lambda>s item. directory_step item s) s dir_stats"

section \<open>\<^verbatim>\<open>analyzers.py\<close>: \<^verbatim>\<open>analyze_file_content\<close>\<close>

text \<open>
  The module \<^verbatim>\<open>config\<close> is not among the sources: its constants are parameters. A
  function pattern is of an unknown type \<open>'p\<close>; \<open>finder p content\<close> stands for
  \<^verbatim>\<open>re.finditer(pattern, content, re.MULTILINE | re.DOTALL)\<close> and gives either the
  exception raised or, for each match, its \<^verbatim>\<open>groups()\<close>. \<open>read_text\<close> is
  \<^verbatim>\<open>open(path, 'r', encoding='utf-8').read()\<close>.
\<close>

record 'p config =
  BINARY_EXTENSIONS :: "string set"
  NON_CODE_EXTENSIONS :: "string set"
  CODE_EXTENSIONS :: "string set"
  FUNCTION_PATTERNS :: "(string \<times> 'p) list"
  IGNORED_KEYWORDS :: "string set"

definition is_binary_file :: "'p config \<Rightarrow> string \<Rightarrow> bool" where
  "is_binary_file cfg filename =
     (let ext = lower (splitext_ext filename)
      in if ext \<in> BINARY_EXTENSIONS cfg then True else ext \<in> NON_CODE_EXTENSIONS cfg)"

text \<open>\<^verbatim>\<open>next(filter(None, match.groups()), None)\<close>\<close>

fun first_group :: "string option list \<Rightarrow> string option" where
  "first_group [] = None"
| "first_group (None # gs) = first_group gs"
| "first_group (Some x # gs) = (if x = [] then first_group gs else Some x)"

fun detected :: "'p config \<Rightarrow> string option list list \<Rightarrow> (string \<times> string) list" where
  "detected cfg [] = []"
| "detected cfg (groups # ms) =
     (case first_group groups of
        None \<Rightarrow> detected cfg ms
      | Some func_name \<Rightarrow>
          if lower func_name \<in> IGNORED_KEYWORDS cfg then detected cfg ms
          else (func_name, ''Function detected'') # detected cfg ms)"

definition pattern_functions ::
  "'p config \<Rightarrow> ('p \<Rightarrow> string \<Rightarrow> py_error + string option list list) \<Rightarrow> string \<Rightarrow> string \<times> 'p
     \<Rightarrow> (string \<times> string) list" where
  "pattern_functions cfg finder content item =
     (case finder (snd item) content of Inl e \<Rightarrow> [] | Inr ms \<Rightarrow> detected cfg ms)"

definition analyze_file_content_body ::
  "'p config \<Rightarrow> ('p \<Rightarrow> string \<Rightarrow> py_error + string option list list) \<Rightarrow> (string \<Rightarrow> py_error + string)
     \<Rightarrow> string \<Rightarrow> py_error + (string \<times> string) list \<times> nat" where
  "analyze_file_content_body cfg finder read_text file_path =
     (if is_binary_file cfg file_path then Inr ([], 0)
      else case read_text file_path of
        Inl e \<Rightarrow> Inl e
      | Inr content \<Rightarrow>
          if lower (splitext_ext file_path) \<notin> CODE_EXTENSIONS cfg then Inr ([], 0)
          else Inr (concat (map (pattern_functions cfg finder content) (FUNCTION_PATTERNS cfg)),
                    split_lines_count content))"

definition analyze_file_content ::
  "'p config \<Rightarrow> ('p \<Rightarrow> string \<Rightarrow> py_error + string option list list) \<Rightarrow> (string \<Rightarrow> py_error + string)
     \<Rightarrow> string \<Rightarrow> (string \<times> string) list \<times> nat" where
  "analyze_file_content cfg finder read_text file_path =
     (case analyze_file_content_body cfg finder read_text file_path of
        Inl e \<Rightarrow> ([], 0)
      | Inr result \<Rightarrow> result)"

section \<open>\<^verbatim>\<open>rules_generator.py\<close>: class \<^verbatim>\<open>RulesGenerator\<close>\<close>

text \<open>
  Of \<^verbatim>\<open>self\<close> the analysis reads \<^verbatim>\<open>compiled_patterns\<close> and
  \<^verbatim>\<open>get_language_from_ext\<close>. The latter belongs to the absent \<^verbatim>\<open>PatternsAnalyzer\<close>
  and stays a parameter.
\<close>

record rules_generator =
  self_compiled_patterns :: compiled_patterns
  get_language_from_ext :: "string \<Rightarrow> string"

definition RulesGenerator :: "(string \<Rightarrow> string) \<Rightarrow> rules_generator" where
  "RulesGenerator language_of = \<lparr>self_compiled_patterns = catalog, get_language_from_ext = language_of\<rparr>"

definition RulesGenerator_analyze_web_patterns ::
  "rules_generator \<Rightarrow> string \<Rightarrow> string \<Rightarrow> project_structure \<Rightarrow> outcome" where
  "RulesGenerator_analyze_web_patterns self content rel_path s0 =
     and_then (for_each (iface_step rel_path)
                 (finditer (common (self_compiled_patterns self) K_interface) content) s0) (\<lambda>s1.
     and_then (for_each (jsx_step rel_path)
                 (finditer (common (self_compiled_patterns self) K_jsx_component) content) s1) (\<lambda>s2.
     and_then (for_each (\<lambda>m s. (add_function_pattern (named_step ''react_hook'' rel_path m) s, None))
                 (finditer (common (self_compiled_patterns self) K_react_hook) content) s2) (\<lambda>s3.
     and_then
       (if str_in ''pages/'' rel_path \<or> str_in ''app/'' rel_path
        then
          and_then (for_each (\<lambda>m s. (add_function_pattern (named_step ''next_data_fetching'' rel_path m) s, None))
                      (finditer (common (self_compiled_patterns self) K_next_api) content) s3) (\<lambda>s4.
          and_then (case search (common (self_compiled_patterns self) K_next_page) rel_path of
                      None \<Rightarrow> (s4, None)
                    | Some m \<Rightarrow> next_page_step rel_path m s4) (\<lambda>s5.
            (case search (common (self_compiled_patterns self) K_next_layout) rel_path of
               None \<Rightarrow> (s5, None)
             | Some m \<Rightarrow> (add_code_organization [(''type'', Some ''next_layout''),
                            (''file'', Some rel_path)] s5, None))))
        else (s3, None)) (\<lambda>s6.
     for_each (styled_step rel_path)
       (finditer (common (self_compiled_patterns self) K_styled_component) content) s6))))"

text \<open>The method reads the groups of a field by number where the module function reads them by name.\<close>

definition field_step_numbered :: "string \<Rightarrow> match \<Rightarrow> project_structure \<Rightarrow> outcome" where
  "field_step_numbered rel_path m s =
     (case group_num m 1 of
        Inl e \<Rightarrow> (s, Some e)
      | Inr ty \<Rightarrow>
          (case group_num m 2 of
             Inl e \<Rightarrow> (s, Some e)
           | Inr name \<Rightarrow>
               (add_code_organization [(''type'', Some ''unity_field''), (''field_type'', ty),
           (''name'', name), (''file'', Some rel_path)] s, None)))"

definition RulesGenerator_analyze_unity_patterns ::
  "rules_generator \<Rightarrow> string \<Rightarrow> string \<Rightarrow> project_structure \<Rightarrow> outcome" where
  "RulesGenerator_analyze_unity_patterns self content rel_path s0 =
     and_then (for_each (\<lambda>m s. (add_class_pattern (named_step ''unity_component'' rel_path m) s, None))
                 (finditer (unity (self_compiled_patterns self) U_component) content) s0) (\<lambda>s1.
     and_then (for_each (\<lambda>m s. (add_function_pattern (named_step ''unity_lifecycle'' rel_path m) s, None))
                 (finditer (unity (self_compiled_patterns self) U_lifecycle) content) s1) (\<lambda>s2.
     and_then (for_each (attribute_step rel_path)
                 (finditer (unity (self_compiled_patterns self) U_attribute) content) s2) (\<lambda>s3.
     and_then (for_each (\<lambda>m s. (add_class_pattern (named_step ''unity_type'' rel_path m) s, None))
                 (finditer (unity (self_compiled_patterns self) U_type) content) s3) (\<lambda>s4.
     and_then (for_each (event_step rel_path)
                 (finditer (unity (self_compiled_patterns self) U_event) content) s4) (\<lambda>s5.
     for_each (field_step_numbered rel_path)
       (finditer (unity (self_compiled_patterns self) U_field) content) s5)))))"

subsection \<open>\<^verbatim>\<open>_analyze_file\<close>\<close>

definition pattern_groups :: "(string \<times> pattern_group) list" where
  "pattern_groups = [(''python'', Python), (''javascript'', Web), (''typescript'', Web),
     (''csharp'', System), (''cpp'', System), (''c'', System), (''php'', System),
     (''kotlin'', System), (''swift'', System), (''java'', Web), (''ruby'', Web),
     (''objc'', System)]"

definition pattern_group_of :: "string \<Rightarrow> pattern_group" where
  "pattern_group_of language = (case map_of pattern_groups language of None \<Rightarrow> System | Some g \<Rightarrow> g)"

fun type_name :: "pattern_type \<Rightarrow> string" where
  "type_name PImport = ''import''"
| "type_name PClass = ''class''"
| "type_name PFunction = ''function''"

text \<open>
  The body run for one match. Nothing in it can raise (every group is read from
  \<^verbatim>\<open>groupdict()\<close> after a membership test), so its \<^verbatim>\<open>try\<close> has nothing to catch.
\<close>

definition match_step :: "pattern_type \<Rightarrow> string \<Rightarrow> project_structure \<Rightarrow> match \<Rightarrow> project_structure" where
  "match_step pattern_type rel_path s m =
     (let groups = groupdict m in
      if pattern_type = PImport
      then (case first_truthy (\<lambda>k. startswith k ''module'') groups of
              None \<Rightarrow> s
            | Some module \<Rightarrow> add_import module s)
      else (case first_truthy (\<lambda>k. k = ''name'' \<or> k = ''n'') groups of
              None \<Rightarrow> s
            | Some name \<Rightarrow>
                let info = [(''name'', Some name), (''file'', Some rel_path),
                            (''type'', Some (type_name pattern_type))]
                           @ optional_field groups ''params'' ''parameters'' id
                           @ optional_field groups ''base'' ''base'' strip
                           @ optional_field groups ''return'' ''return_type'' strip
                in if pattern_type = PClass then add_class_pattern info s
                   else add_function_pattern info s))"

definition find_patterns ::
  "rules_generator \<Rightarrow> string \<Rightarrow> string \<Rightarrow> pattern_group \<Rightarrow> project_structure \<Rightarrow> pattern_type
     \<Rightarrow> project_structure" where
  "find_patterns self content rel_path pattern_group s pattern_type =
     foldl (match_step pattern_type rel_path) s
       (finditer (by_kind (self_compiled_patterns self) pattern_type pattern_group) content)"

definition unity_markers :: "string list" where
  "unity_markers = [''UnityEngine'', ''MonoBehaviour'', ''ScriptableObject'']"

definition RulesGenerator_analyze_file ::
  "rules_generator \<Rightarrow> string \<Rightarrow> string \<Rightarrow> project_structure \<Rightarrow> string \<Rightarrow> outcome" where
  "RulesGenerator_analyze_file self content rel_path s0 language =
     (let s1 = foldl (find_patterns self content rel_path (pattern_group_of language)) s0
                 [PImport, PClass, PFunction]
      in and_then (if language \<in> set [''typescript'', ''javascript'']
                   then RulesGenerator_analyze_web_patterns self content rel_path s1
                   else (s1, None)) (\<lambda>s2.
           if language = ''csharp'' \<and> any_in unity_markers content
           then RulesGenerator_analyze_unity_patterns self content rel_path s2
           else (s2, None)))"

subsection \<open>\<^verbatim>\<open>_analyze_directory_patterns\<close>\<close>

definition RulesGenerator_analyze_directory_patterns ::
  "project_structure \<Rightarrow> (string \<times> directory_stats) list \<Rightarrow> project_structure" where
  "RulesGenerator_analyze_directory_patterns s dir_stats =
     foldl (\<lambda>s item. directory_step item s) s dir_stats"

subsection \<open>\<^verbatim>\<open>_analyze_project_structure\<close>\<close>

text \<open>
  \<^verbatim>\<open>os.walk\<close> is the external file listing: the directories in visiting order, each
  with its path relative to the project (\<^verbatim>\<open>.\<close> for the project itself) and the names
  of its files. \<open>read_text\<close> is \<^verbatim>\<open>open(file_path, 'r', encoding='utf-8').read()\<close>,
  by the path relative to the project.

  The blocks are read by their indentation. The branch for configuration files (an
  \<^verbatim>\<open>elif\<close> at the depth of the \<^verbatim>\<open>try\<close>, inside the branch for code files) is run
  after the \<^verbatim>\<open>try\<close> when that one ends without \<^verbatim>\<open>continue\<close>; the entry of
  \<^verbatim>\<open>directory_structure\<close> is written inside the loop over the files. Its
  \<^verbatim>\<open>stats\<close> is the very object held by \<^verbatim>\<open>dir_stats\<close>, so only the parent is kept
  here.
\<close>

definition code_extensions :: "string list" where
  "code_extensions = [''.py'', ''.js'', ''.ts'', ''.tsx'', ''.kt'', ''.php'', ''.swift'', ''.cpp'',
     ''.c'', ''.h'', ''.hpp'', ''.cs'', ''.csx'', ''.java'', ''.rb'', ''.objc'']"

definition config_suffixes :: "string list" where
  "config_suffixes = [''.json'', ''.ini'', ''.conf'']"

definition fresh_stats :: directory_stats where
  "fresh_stats = \<lparr>total_files = 0, code_files = 0, stat_languages = []\<rparr>"

definition count_of :: "nat option \<Rightarrow> nat" where
  "count_of v = (case v of None \<Rightarrow> 0 | Some n \<Rightarrow> n)"

definition rel_path_of :: "string \<Rightarrow> string \<Rightarrow> string" where
  "rel_path_of rel_root file = (if rel_root = [] then file else rel_root @ ''/'' @ file)"

definition note_directory :: "string \<Rightarrow> project_structure \<Rightarrow> project_structure" where
  "note_directory rel_root s =
     (if rel_root \<noteq> []
      then s\<lparr>directory_structure := (directory_structure s)
               (rel_root \<mapsto> (if dirname rel_root = [] then None else Some (dirname rel_root)))\<rparr>
      else s)"

type_synonym walk_state = "project_structure \<times> (string \<times> directory_stats) list"

definition count_code_file :: "string \<Rightarrow> string \<Rightarrow> string \<Rightarrow> walk_state \<Rightarrow> walk_state" where
  "count_code_file rel_root rel_path lang st =
     (case st of (s, dir_stats) \<Rightarrow>
        (s\<lparr>files := files s @ [rel_path],
           languages := (languages s)(lang \<mapsto> count_of (languages s lang) + 1)\<rparr>,
         AList.map_entry rel_root
           (\<lambda>d. d\<lparr>code_files := code_files d + 1,
                   stat_languages := AList.update lang (count_of (map_of (stat_languages d) lang) + 1)
                                       (stat_languages d)\<rparr>) dir_stats))"

definition config_branch ::
  "(string \<Rightarrow> py_error + string) \<Rightarrow> string \<Rightarrow> string \<Rightarrow> string \<Rightarrow> project_structure \<Rightarrow> project_structure" where
  "config_branch read_text rel_root rel_path file s =
     (if list_ex (endswith file) config_suffixes
      then (case read_text rel_path of
              Inl e \<Rightarrow> s\<lparr>config_files := config_files s @ [rel_path]\<rparr>
            | Inr content \<Rightarrow>
                note_directory rel_root
                  (s\<lparr>config_files := config_files s @ [rel_path],
                     patterns := (patterns s)\<lparr>configurations := configurations (patterns s) @
                       [[(''file'', Some rel_path), (''content'', Some content)]]\<rparr>\<rparr>))
      else note_directory rel_root s)"

definition file_step ::
  "rules_generator \<Rightarrow> (string \<Rightarrow> py_error + string) \<Rightarrow> string \<Rightarrow> walk_state \<Rightarrow> string \<Rightarrow> walk_state" where
  "file_step self read_text rel_root st file =
     (case st of (s, dir_stats) \<Rightarrow>
        let rel_path = rel_path_of rel_root file;
            counted = (s, AList.map_entry rel_root (\<lambda>d. d\<lparr>total_files := total_files d + 1\<rparr>) dir_stats);
            file_ext = lower (splitext_ext file)
        in if file_ext \<in> set code_extensions
           then (let lang = get_language_from_ext self file_ext in
                 case count_code_file rel_root rel_path lang counted of (s1, dir_stats1) \<Rightarrow>
                   (case read_text rel_path of
                      Inl e \<Rightarrow> (s1, dir_stats1)
                    | Inr content \<Rightarrow>
                        (case RulesGenerator_analyze_file self content rel_path
                                (s1\<lparr>code_contents := (code_contents s1)(rel_path \<mapsto> content)\<rparr>) lang of
                           (s2, Some e) \<Rightarrow> (s2, dir_stats1)
                         | (s2, None) \<Rightarrow> (config_branch read_text rel_root rel_path file s2, dir_stats1))))
           else (note_directory rel_root (fst counted), snd counted))"

definition dir_step ::
  "rules_generator \<Rightarrow> (string \<Rightarrow> py_error + string) \<Rightarrow> walk_state \<Rightarrow> string \<times> string list \<Rightarrow> walk_state" where
  "dir_step self read_text st d =
     (case st of (s, dir_stats) \<Rightarrow>
        let rel_root = (if fst d = ''.'' then [] else fst d)
        in foldl (file_step self read_text rel_root)
             (s, AList.update rel_root fresh_stats dir_stats) (snd d))"

definition RulesGenerator_analyze_project_structure ::
  "rules_generator \<Rightarrow> (string \<times> string list) list \<Rightarrow> (string \<Rightarrow> py_error + string) \<Rightarrow> project_structure" where
  "RulesGenerator_analyze_project_structure self walk read_text =
     (case foldl (dir_step self read_text) (initial_structure, []) walk of
        (s, dir_stats) \<Rightarrow> RulesGenerator_analyze_directory_patterns s dir_stats)"

section \<open>Inputs and predicates of the properties\<close>

text \<open>The files of the scenarios.\<close>

definition python_example :: string where
  "python_example = ''def foo(a, b):'' @ [newline] @ ''    pass''"



definition class_expression :: string where
  "class_expression = ''const Foo = class {''"

definition blog_page :: string where
  "blog_page = ''pages/blog/[id].tsx''"

text \<open>
  A stand-in for \<^verbatim>\<open>get_language_from_ext\<close>, with the language names that
  \<^verbatim>\<open>_analyze_file\<close> tests for, and two readers: one that fails on every file and
  one that returns an empty JSON object.
\<close>

definition sample_language_of :: "string \<Rightarrow> string" where
  "sample_language_of ext =
     (if ext = ''.py'' then ''python'' else if ext = ''.js'' then ''javascript''
      else if ext = ''.ts'' \<or> ext = ''.tsx'' then ''typescript''
      else if ext = ''.cs'' then ''csharp'' else ''unknown'')"


definition settings_reader :: "string \<Rightarrow> py_error + string" where
  "settings_reader p = Inr ''{}''"



definition java_imports_example :: string where
  "java_imports_example = ''import java.util.List; import java.io.File; import java.util.List;''"

text \<open>
  A sample configuration for \<^verbatim>\<open>analyze_file_content\<close>: patterns are numbers, pattern 0
  is rejected by the regex compiler, every other pattern has three matches.
\<close>

definition sample_config :: "nat config" where
  "sample_config = \<lparr>BINARY_EXTENSIONS = {''.png''}, NON_CODE_EXTENSIONS = {''.md''},
     CODE_EXTENSIONS = {''.py''}, FUNCTION_PATTERNS = [(''broken'', 0), (''python'', 1)],
     IGNORED_KEYWORDS = {''if''}\<rparr>"

definition sample_finder :: "nat \<Rightarrow> string \<Rightarrow> py_error + string option list list" where
  "sample_finder p content =
     (if p = 0 then Inl ReError else Inr [[Some ''foo''], [None, Some ''If''], [None, Some []]])"

definition sample_reader :: "string \<Rightarrow> py_error + string" where
  "sample_reader p = (if p = ''gone.py'' then Inl OSError else Inr python_example)"

text \<open>
  Two syntactic checks on a rule. A \<open>strict\<close> rule matches no empty text. A rule that
  \<open>binds P\<close> sets, in each of its matches, a group whose name satisfies \<open>P\<close> to a
  non-empty text.
\<close>

fun strict :: "re \<Rightarrow> bool" where
  "strict (Str p) = (p \<noteq> [])"
| "strict (Sym cs) = True"
| "strict (NSym cs) = True"
| "strict Dot = True"
| "strict (Seq p q) = (strict p \<or> strict q)"
| "strict (Alt p q) = (strict p \<and> strict q)"
| "strict (Cap n p) = strict p"
| "strict _ = False"

fun binds :: "(string \<Rightarrow> bool) \<Rightarrow> re \<Rightarrow> bool" where
  "binds P (Seq p q) = ((binds P p \<and> list_all (\<lambda>n. \<not> P n) (group_names_raw q)) \<or> binds P q)"
| "binds P (Alt p q) = (binds P p \<and> binds P q)"
| "binds P (Cap n p) = (P n \<and> strict p)"
| "binds P _ = False"

fun caps_of :: "mstate \<Rightarrow> (string \<times> string) list" where
  "caps_of (b, r, g) = g"

text \<open>The module of an import match, as \<^verbatim>\<open>_analyze_file\<close> reads it.\<close>

definition module_of :: "match \<Rightarrow> string option" where
  "module_of m = first_truthy (\<lambda>k. startswith k ''module'') (groupdict m)"

definition widget_example :: string where
  "widget_example = ''export class Widget extends Base {}''"

text \<open>
  A C# field, and compiled rules that are the catalog but for the field rule, which
  here also captures the visibility, as its first group.
\<close>

definition field_example :: string where
  "field_example = ''public int hp;''"

definition leading_group_field :: re where
  "leading_group_field = cat [
     Cap ''visibility'' (alts [Str ''public'', Str ''private'', Str ''protected'', Str ''internal'']),
     ws1, Cap ''type'' word1, ws1, Cap ''name'' word1, ws, Str '';'']"

definition leading_group_patterns :: compiled_patterns where
  "leading_group_patterns = catalog\<lparr>unity := (unity catalog)(U_field := leading_group_field)\<rparr>"

definition leading_group_generator :: rules_generator where
  "leading_group_generator =
     \<lparr>self_compiled_patterns = leading_group_patterns, get_language_from_ext = sample_language_of\<rparr>"

section \<open>Facts about matches\<close>

lemma matches_here_names:
  "m \<in> set (fst (matches_here p b r)) \<Longrightarrow> m_names m = group_names p"
  by (auto simp: matches_here_def mk_match_def split: list.splits if_splits)

lemma scan_names: "m \<in> set (scan p b r k) \<Longrightarrow> m_names m = group_names p"
proof (induction r arbitrary: b k)
  case Nil
  then show ?case by (auto split: if_splits dest: matches_here_names)
next
  case (Cons c cs)
  then show ?case
    by (auto split: if_splits prod.splits dest: matches_here_names)
       (metis fst_conv matches_here_names)
qed

lemma finditer_names: "m \<in> set (finditer p s) \<Longrightarrow> m_names m = group_names p"
  unfolding finditer_def by (rule scan_names)

lemma search_from_names: "search_from p b r = Some m \<Longrightarrow> m_names m = group_names p"
  by (induction r arbitrary: b) (auto simp: mk_match_def split: list.splits)

lemma search_names: "search p s = Some m \<Longrightarrow> m_names m = group_names p"
  unfolding search_def by (rule search_from_names)

lemma for_each_cong:
  "(\<And>x s. x \<in> set xs \<Longrightarrow> f x s = g x s) \<Longrightarrow> for_each f xs s = for_each g xs s"
  by (induction xs arbitrary: s) (auto split: prod.splits option.splits)

lemma self_catalog: "self_compiled_patterns (RulesGenerator language_of) = catalog"
  by (simp add: RulesGenerator_def)

section \<open>The two copies of the idiom analyzers\<close>

lemma unity_field_names: "group_names unity_field = [''type'', ''name'', ''value'']"
  by code_simp

lemma web_same:
  "RulesGenerator_analyze_web_patterns self content rel_path s =
   analyze_web_patterns content rel_path s (self_compiled_patterns self)"
  unfolding analyze_web_patterns_def RulesGenerator_analyze_web_patterns_def by (rule refl)

text \<open>
  The copies of the Unity analyzer agree for all compiled rules whose field rule has
  \<^verbatim>\<open>type\<close> and \<^verbatim>\<open>name\<close> as its first two groups.
\<close>

lemma unity_same:
  assumes "take 2 (group_names (unity (self_compiled_patterns self) U_field)) = [''type'', ''name'']"
  shows "RulesGenerator_analyze_unity_patterns self content rel_path s =
         analyze_unity_patterns content rel_path s (self_compiled_patterns self)"
proof -
  let ?ns = "group_names (unity (self_compiled_patterns self) U_field)"
  from assms have ns: "?ns = ''type'' # ''name'' # drop 2 ?ns"
    by (cases ?ns; cases "tl ?ns") auto
  have "field_step_numbered rel_path m t = field_step rel_path m t"
    if "m \<in> set (finditer (unity (self_compiled_patterns self) U_field) content)" for m t
  proof -
    from finditer_names [OF that] ns have "m_names m = ''type'' # ''name'' # drop 2 ?ns"
      by simp
    then show ?thesis
      by (simp add: field_step_def field_step_numbered_def group_named_def group_num_def)
  qed
  then have "for_each (field_step_numbered rel_path)
          (finditer (unity (self_compiled_patterns self) U_field) content) =
        for_each (field_step rel_path)
          (finditer (unity (self_compiled_patterns self) U_field) content)"
    by (intro ext for_each_cong)
  then show ?thesis
    unfolding analyze_unity_patterns_def RulesGenerator_analyze_unity_patterns_def by simp
qed

lemma field_example_component: "finditer unity_component field_example = []"
  by code_simp

lemma field_example_lifecycle: "finditer unity_lifecycle field_example = []"
  by code_simp

lemma field_example_attribute: "finditer unity_attribute field_example = []"
  by code_simp

lemma field_example_type: "finditer unity_type field_example = []"
  by code_simp

lemma field_example_event: "finditer unity_event field_example = []"
  by code_simp

lemma field_example_field: "finditer unity_field field_example =
  [\<lparr>m_text = ''public int hp;'', m_caps = [(''type'', ''int''), (''name'', ''hp'')],
    m_names = [''type'', ''name'', ''value'']\<rparr>]"
  by code_simp

lemma field_example_leading: "finditer leading_group_field field_example =
  [\<lparr>m_text = ''public int hp;'',
    m_caps = [(''visibility'', ''public''), (''type'', ''int''), (''name'', ''hp'')],
    m_names = [''visibility'', ''type'', ''name'']\<rparr>]"
  by code_simp

lemma leading_group_unity:
  "unity leading_group_patterns U_component = unity_component"
  "unity leading_group_patterns U_lifecycle = unity_lifecycle"
  "unity leading_group_patterns U_attribute = unity_attribute"
  "unity leading_group_patterns U_type = unity_type"
  "unity leading_group_patterns U_event = unity_event"
  "unity leading_group_patterns U_field = leading_group_field"
  by (simp_all add: leading_group_patterns_def catalog_def)

lemma leading_group_by_name:
  "analyze_unity_patterns field_example ''Player.cs'' initial_structure leading_group_patterns =
     (add_code_organization [(''type'', Some ''unity_field''), (''field_type'', Some ''int''),
        (''name'', Some ''hp''), (''file'', Some ''Player.cs'')] initial_structure, None)"
  by (simp add: analyze_unity_patterns_def leading_group_unity field_example_component
      field_example_lifecycle field_example_attribute field_example_type field_example_event
      field_example_leading and_then_def field_step_def group_named_def)

lemma leading_group_by_number:
  "RulesGenerator_analyze_unity_patterns leading_group_generator field_example ''Player.cs''
     initial_structure =
     (add_code_organization [(''type'', Some ''unity_field''), (''field_type'', Some ''public''),
        (''name'', Some ''int''), (''file'', Some ''Player.cs'')] initial_structure, None)"
  by (simp add: RulesGenerator_analyze_unity_patterns_def leading_group_generator_def
      leading_group_unity field_example_component field_example_lifecycle
      field_example_attribute field_example_type field_example_event field_example_leading
      and_then_def field_step_numbered_def group_num_def)

text \<open>
  C9, the claim as stated fails. With the same content, path, structure and compiled
  rules, the rules being the catalog but for a field rule whose first group is the
  visibility, \<^verbatim>\<open>analyze_unity_patterns\<close> reads the groups \<^verbatim>\<open>type\<close> and \<^verbatim>\<open>name\<close> and
  records the field \<^verbatim>\<open>int hp\<close>, while \<^verbatim>\<open>_analyze_unity_patterns\<close> reads the groups 1
  and 2 and records the field \<^verbatim>\<open>public int\<close>.
\<close>

theorem duplicated_unity_analyzers_differ:
  "self_compiled_patterns leading_group_generator = leading_group_patterns
   \<and> code_organization (patterns (fst (analyze_unity_patterns field_example ''Player.cs''
        initial_structure leading_group_patterns))) =
       [[(''type'', Some ''unity_field''), (''field_type'', Some ''int''), (''name'', Some ''hp''),
         (''file'', Some ''Player.cs'')]]
   \<and> code_organization (patterns (fst (RulesGenerator_analyze_unity_patterns leading_group_generator
        field_example ''Player.cs'' initial_structure))) =
       [[(''type'', Some ''unity_field''), (''field_type'', Some ''public''), (''name'', Some ''int''),
         (''file'', Some ''Player.cs'')]]
   \<and> analyze_unity_patterns field_example ''Player.cs'' initial_structure leading_group_patterns \<noteq>
       RulesGenerator_analyze_unity_patterns leading_group_generator field_example ''Player.cs''
         initial_structure"
proof -
  have differ: "add_code_organization [(''type'', Some ''unity_field''), (''field_type'', Some ''int''),
        (''name'', Some ''hp''), (''file'', Some ''Player.cs'')] initial_structure \<noteq>
      add_code_organization [(''type'', Some ''unity_field''), (''field_type'', Some ''public''),
        (''name'', Some ''int''), (''file'', Some ''Player.cs'')] initial_structure"
  proof
    assume "add_code_organization [(''type'', Some ''unity_field''), (''field_type'', Some ''int''),
        (''name'', Some ''hp''), (''file'', Some ''Player.cs'')] initial_structure =
      add_code_organization [(''type'', Some ''unity_field''), (''field_type'', Some ''public''),
        (''name'', Some ''int''), (''file'', Some ''Player.cs'')] initial_structure"
    then have "code_organization (patterns (add_code_organization [(''type'', Some ''unity_field''),
        (''field_type'', Some ''int''), (''name'', Some ''hp''), (''file'', Some ''Player.cs'')]
        initial_structure)) =
      code_organization (patterns (add_code_organization [(''type'', Some ''unity_field''),
        (''field_type'', Some ''public''), (''name'', Some ''int''), (''file'', Some ''Player.cs'')]
        initial_structure))"
      by (rule arg_cong)
    then show False
      by (simp add: add_code_organization_def initial_structure_def)
  qed
  have generator: "self_compiled_patterns leading_group_generator = leading_group_patterns"
    by (simp add: leading_group_generator_def)
  have by_name: "code_organization (patterns (fst (analyze_unity_patterns field_example ''Player.cs''
        initial_structure leading_group_patterns))) =
       [[(''type'', Some ''unity_field''), (''field_type'', Some ''int''), (''name'', Some ''hp''),
         (''file'', Some ''Player.cs'')]]"
    by (simp only: leading_group_by_name fst_conv)
       (simp add: add_code_organization_def initial_structure_def)
  have by_number: "code_organization (patterns (fst (RulesGenerator_analyze_unity_patterns
        leading_group_generator field_example ''Player.cs'' initial_structure))) =
       [[(''type'', Some ''unity_field''), (''field_type'', Some ''public''), (''name'', Some ''int''),
         (''file'', Some ''Player.cs'')]]"
    by (simp only: leading_group_by_number fst_conv)
       (simp add: add_code_organization_def initial_structure_def)
  have "analyze_unity_patterns field_example ''Player.cs'' initial_structure leading_group_patterns \<noteq>
       RulesGenerator_analyze_unity_patterns leading_group_generator field_example ''Player.cs''
         initial_structure"
    by (simp only: leading_group_by_name leading_group_by_number) (simp add: differ)
  with generator by_name by_number show ?thesis
    by (intro conjI)
qed

text \<open>
  C9, amended. On the same content, relative path, structure and compiled rules,
  \<^verbatim>\<open>analyze_web_patterns\<close> of \<^verbatim>\<open>analyzers.py\<close> leaves the same structure (the same
  entries appended in the same order to the same lists) and the same exception, if any,
  as the method \<^verbatim>\<open>_analyze_web_patterns\<close> of \<^verbatim>\<open>RulesGenerator\<close>; so do
  \<^verbatim>\<open>analyze_unity_patterns\<close> and \<^verbatim>\<open>_analyze_unity_patterns\<close> when the first two groups
  of the compiled field rule are \<^verbatim>\<open>type\<close> and \<^verbatim>\<open>name\<close>, as they are in the compiled
  catalog, for which both pairs agree.
\<close>

theorem duplicated_analyzers_agree:
  "analyze_web_patterns content rel_path s (self_compiled_patterns self) =
     RulesGenerator_analyze_web_patterns self content rel_path s
   \<and> (take 2 (group_names (unity (self_compiled_patterns self) U_field)) = [''type'', ''name''] \<longrightarrow>
        analyze_unity_patterns content rel_path s (self_compiled_patterns self) =
          RulesGenerator_analyze_unity_patterns self content rel_path s)
   \<and> analyze_web_patterns content rel_path s catalog =
       RulesGenerator_analyze_web_patterns (RulesGenerator language_of) content rel_path s
   \<and> analyze_unity_patterns content rel_path s catalog =
       RulesGenerator_analyze_unity_patterns (RulesGenerator language_of) content rel_path s"
proof -
  have "take 2 (group_names (unity (self_compiled_patterns (RulesGenerator language_of)) U_field)) =
        [''type'', ''name'']"
    by (simp add: self_catalog catalog_def unity_field_names)
  from unity_same [OF this] show ?thesis
    by (simp add: web_same self_catalog unity_same)
qed

lemma catalog_field: "unity catalog U_field = unity_field"
  by (simp add: catalog_def)

theorem duplicated_analyzers_agree_witness:
  "take 2 (group_names (unity (self_compiled_patterns (RulesGenerator sample_language_of)) U_field)) =
     [''type'', ''name'']
   \<and> analyze_unity_patterns field_example ''Player.cs'' initial_structure
        (self_compiled_patterns (RulesGenerator sample_language_of)) =
      RulesGenerator_analyze_unity_patterns (RulesGenerator sample_language_of) field_example
        ''Player.cs'' initial_structure
   \<and> code_organization (patterns (fst (RulesGenerator_analyze_unity_patterns
        (RulesGenerator sample_language_of) field_example ''Player.cs'' initial_structure))) =
       [[(''type'', Some ''unity_field''), (''field_type'', Some ''int''), (''name'', Some ''hp''),
         (''file'', Some ''Player.cs'')]]"
proof -
  have names: "take 2 (group_names (unity (self_compiled_patterns (RulesGenerator sample_language_of))
      U_field)) = [''type'', ''name'']"
    by (simp add: self_catalog catalog_field unity_field_names)
  have by_name: "analyze_unity_patterns field_example ''Player.cs'' initial_structure catalog =
     (add_code_organization [(''type'', Some ''unity_field''), (''field_type'', Some ''int''),
        (''name'', Some ''hp''), (''file'', Some ''Player.cs'')] initial_structure, None)"
    by (simp add: analyze_unity_patterns_def catalog_def field_example_component
        field_example_lifecycle field_example_attribute field_example_type field_example_event
        field_example_field and_then_def field_step_def group_named_def)
  have listed: "code_organization (patterns (fst (analyze_unity_patterns field_example ''Player.cs''
        initial_structure catalog))) =
       [[(''type'', Some ''unity_field''), (''field_type'', Some ''int''), (''name'', Some ''hp''),
         (''file'', Some ''Player.cs'')]]"
    by (simp only: by_name fst_conv) (simp add: add_code_organization_def initial_structure_def)
  from duplicated_analyzers_agree [of field_example "''Player.cs''" initial_structure
      "RulesGenerator sample_language_of" sample_language_of]
  show ?thesis
    using names listed by (simp add: self_catalog)
qed

section \<open>Helper facts about the structure and the control flow\<close>

lemmas structure_updates = add_import_def add_class_pattern_def add_function_pattern_def
  add_code_organization_def

lemma for_each_preserves:
  assumes "\<And>x t. P (fst (f x t)) = P t"
  shows "P (fst (for_each f xs s)) = P s"
proof (induction xs arbitrary: s)
  case Nil
  show ?case by simp
next
  case (Cons x xs)
  show ?case
  proof (cases "f x s")
    case (Pair s' r)
    with assms [of x s] have "P s' = P s" by simp
    with Pair Cons show ?thesis by (cases r) simp_all
  qed
qed

lemma for_each_org:
  assumes "\<And>x t. code_organization (patterns (fst (f x t))) = code_organization (patterns t)"
    and "code_organization (patterns s) = c"
  shows "code_organization (patterns (fst (for_each f xs s))) = c"
  using for_each_preserves [of "\<lambda>t. code_organization (patterns t)" f xs s] assms by simp

lemma and_then_error: "snd r \<noteq> None \<Longrightarrow> and_then r k = r"
  by (cases r) (auto simp: and_then_def)

lemma and_then_fails:
  assumes "code_organization (patterns (fst r)) = c"
    and "\<And>t. code_organization (patterns t) = c \<Longrightarrow>
           snd (k t) \<noteq> None \<and> code_organization (patterns (fst (k t))) = c"
  shows "snd (and_then r k) \<noteq> None \<and> code_organization (patterns (fst (and_then r k))) = c"
proof (cases r)
  case (Pair t e)
  show ?thesis
  proof (cases e)
    case None
    with Pair assms show ?thesis by (simp add: and_then_def)
  next
    case (Some a)
    with Pair assms(1) show ?thesis by (simp add: and_then_def)
  qed
qed

lemma and_then_failed:
  assumes "snd r \<noteq> None \<and> code_organization (patterns (fst r)) = c"
  shows "snd (and_then r k) \<noteq> None \<and> code_organization (patterns (fst (and_then r k))) = c"
  using assms by (simp add: and_then_error)

lemma pattern_group_python: "pattern_group_of ''python'' = Python"
  by code_simp


lemma pattern_group_typescript: "pattern_group_of ''typescript'' = Web"
  by code_simp

lemma pattern_group_javascript: "pattern_group_of ''javascript'' = Web"
  by code_simp

section \<open>A Python function definition\<close>

lemma python_example_import: "finditer import_python python_example = []"
  by code_simp

lemma python_example_class: "finditer class_python python_example = []"
  by code_simp

lemma python_example_function: "finditer function_python python_example =
  [\<lparr>m_text = ''def foo(a, b):'', m_caps = [(''name'', ''foo''), (''params'', ''a, b'')],
    m_names = [''name'', ''params'', ''return'', ''docstring'']\<rparr>]"
  by code_simp

lemma python_example_result:
  "RulesGenerator_analyze_file (RulesGenerator language_of) python_example rel_path s ''python'' =
     (add_function_pattern [(''name'', Some ''foo''), (''file'', Some rel_path),
        (''type'', Some ''function''), (''parameters'', Some ''a, b'')] s, None)"
  by (simp add: RulesGenerator_analyze_file_def find_patterns_def self_catalog catalog_def
      pattern_group_python python_example_import python_example_class python_example_function
      match_step_def groupdict_def optional_field_def and_then_def)

text \<open>
  C7. Analyzing, as Python, a file whose content is \<^verbatim>\<open>def foo(a, b):\<close> followed by an
  indented \<^verbatim>\<open>pass\<close> ends without an exception and appends exactly one record to the
  function records: name \<^verbatim>\<open>foo\<close>, type \<^verbatim>\<open>function\<close>, parameters \<^verbatim>\<open>a, b\<close>, file
  the relative path. The class records, the imports and the dependencies are unchanged.
\<close>

theorem python_def_gives_one_function_record:
  "snd (RulesGenerator_analyze_file (RulesGenerator language_of) python_example rel_path s ''python'') = None
   \<and> function_patterns (patterns (fst (RulesGenerator_analyze_file (RulesGenerator language_of)
         python_example rel_path s ''python''))) =
       function_patterns (patterns s) @
         [[(''name'', Some ''foo''), (''file'', Some rel_path), (''type'', Some ''function''),
           (''parameters'', Some ''a, b'')]]
   \<and> class_patterns (patterns (fst (RulesGenerator_analyze_file (RulesGenerator language_of)
         python_example rel_path s ''python''))) = class_patterns (patterns s)
   \<and> pattern_imports (patterns (fst (RulesGenerator_analyze_file (RulesGenerator language_of)
         python_example rel_path s ''python''))) = pattern_imports (patterns s)
   \<and> dependencies (fst (RulesGenerator_analyze_file (RulesGenerator language_of)
         python_example rel_path s ''python'')) = dependencies s"
  by (simp add: python_example_result structure_updates)

theorem python_def_gives_one_function_record_witness:
  "function_patterns (patterns (fst (RulesGenerator_analyze_file (RulesGenerator sample_language_of)
         python_example ''src/m.py'' initial_structure ''python''))) =
     [[(''name'', Some ''foo''), (''file'', Some ''src/m.py''), (''type'', Some ''function''),
       (''parameters'', Some ''a, b'')]]
   \<and> class_patterns (patterns (fst (RulesGenerator_analyze_file (RulesGenerator sample_language_of)
         python_example ''src/m.py'' initial_structure ''python''))) = []
   \<and> pattern_imports (patterns (fst (RulesGenerator_analyze_file (RulesGenerator sample_language_of)
         python_example ''src/m.py'' initial_structure ''python''))) = []"
  using python_def_gives_one_function_record [of sample_language_of "''src/m.py''" initial_structure]
  by (simp add: initial_structure_def)

section \<open>Unity rules on C# files\<close>



















section \<open>The route of a Next.js page\<close>

lemma blog_page_in_pages: "str_in ''pages/'' blog_page"
  by code_simp

lemma blog_page_search:
  "search common_next_page blog_page =
     Some \<lparr>m_text = ''pages/blog/[id].tsx'', m_caps = [], m_names = []\<rparr>"
  by code_simp

lemma next_page_has_no_groups: "group_names common_next_page = []"
  by code_simp

lemma iface_step_org:
  "code_organization (patterns (fst (iface_step p m t))) = code_organization (patterns t)"
  by (simp add: iface_step_def structure_updates split: sum.splits)

lemma jsx_step_org:
  "code_organization (patterns (fst (jsx_step p m t))) = code_organization (patterns t)"
  by (simp add: jsx_step_def structure_updates split: sum.splits option.splits list.splits)

lemma next_page_raises:
  "next_page_step rel_path \<lparr>m_text = t, m_caps = [], m_names = []\<rparr> s = (s, Some IndexError)"
  by (simp add: next_page_step_def group_named_def)

lemma empty_interface: "finditer common_interface [] = []"
  by code_simp

lemma empty_jsx: "finditer common_jsx_component [] = []"
  by code_simp

lemma empty_hook: "finditer common_react_hook [] = []"
  by code_simp

lemma empty_next_api: "finditer common_next_api [] = []"
  by code_simp

lemma empty_import_web: "finditer import_web [] = []"
  by code_simp

lemma empty_class_web: "finditer class_web [] = []"
  by code_simp

lemma empty_function_web: "finditer function_web [] = []"
  by code_simp

lemma blog_page_empty_content:
  "RulesGenerator_analyze_web_patterns (RulesGenerator language_of) [] blog_page s =
     (s, Some IndexError)"
  by (simp add: RulesGenerator_analyze_web_patterns_def self_catalog catalog_def empty_interface
      empty_jsx empty_hook empty_next_api blog_page_in_pages blog_page_search next_page_raises
      and_then_def)

lemma blog_page_any_content:
  "snd (RulesGenerator_analyze_web_patterns (RulesGenerator language_of) content blog_page s) \<noteq> None
   \<and> code_organization (patterns (fst (RulesGenerator_analyze_web_patterns
         (RulesGenerator language_of) content blog_page s))) = code_organization (patterns s)"
  unfolding RulesGenerator_analyze_web_patterns_def
  apply (rule and_then_fails)
   apply (rule for_each_org, rule iface_step_org, rule refl)
  apply (rule and_then_fails)
   apply (rule for_each_org, rule jsx_step_org, assumption)
  apply (rule and_then_fails)
   apply (rule for_each_org, simp add: structure_updates, assumption)
  apply (rule and_then_failed)
  apply (simp only: blog_page_in_pages if_True simp_thms)
  apply (rule and_then_fails)
   apply (rule for_each_org, simp add: structure_updates, assumption)
  apply (rule and_then_failed)
  apply (simp add: self_catalog catalog_def blog_page_search next_page_raises)
  done

text \<open>
  C1, as the code has it. The rule \<^verbatim>\<open>next_page\<close> has no group at all, so on the path
  \<^verbatim>\<open>pages/blog/[id].tsx\<close> the rule matches and \<^verbatim>\<open>page_match.group('route')\<close> raises
  IndexError: whatever the content, \<^verbatim>\<open>_analyze_web_patterns\<close> ends with an exception
  and the code organization is as it was (no \<^verbatim>\<open>next_page\<close> record); on an empty file
  the exception leaves \<^verbatim>\<open>_analyze_file\<close> with the structure unchanged.
\<close>

theorem blog_page_route_raises:
  "group_names common_next_page = []
   \<and> snd (RulesGenerator_analyze_web_patterns (RulesGenerator language_of) content blog_page s) \<noteq> None
   \<and> code_organization (patterns (fst (RulesGenerator_analyze_web_patterns
         (RulesGenerator language_of) content blog_page s))) = code_organization (patterns s)
   \<and> RulesGenerator_analyze_file (RulesGenerator language_of) [] blog_page s ''typescript'' =
       (s, Some IndexError)"
  using blog_page_any_content [of language_of content s]
  by (simp add: RulesGenerator_analyze_file_def find_patterns_def self_catalog catalog_def
      pattern_group_typescript empty_import_web empty_class_web empty_function_web
      blog_page_empty_content and_then_def next_page_has_no_groups)

section \<open>A class expression\<close>

lemma class_expression_import: "finditer import_web class_expression = []"
  by code_simp

lemma class_expression_class: "finditer class_web class_expression =
  [\<lparr>m_text = ''const Foo = class {'', m_caps = [(''name2'', ''Foo'')],
    m_names = [''name'', ''base'', ''name2'', ''base2'', ''name3'', ''base3'']\<rparr>]"
  by code_simp

lemma class_expression_function: "finditer function_web class_expression = []"
  by code_simp

lemma class_expression_interface: "finditer common_interface class_expression = []"
  by code_simp

lemma class_expression_jsx: "finditer common_jsx_component class_expression = []"
  by code_simp

lemma class_expression_hook: "finditer common_react_hook class_expression = []"
  by code_simp

lemma class_expression_styled: "finditer common_styled_component class_expression = []"
  by code_simp

lemma foo_js_not_page: "\<not> (str_in ''pages/'' ''src/foo.js'' \<or> str_in ''app/'' ''src/foo.js'')"
  by code_simp

text \<open>
  C2, as the code has it. The identifier is the first non-empty group named \<^verbatim>\<open>name\<close>
  or \<^verbatim>\<open>n\<close>; no alias is read. On \<^verbatim>\<open>const Foo = class {\<close> the class rule of the web
  family matches and binds only \<^verbatim>\<open>name2\<close>, and the analysis of the file leaves the
  structure unchanged: the match is dropped.
\<close>

theorem class_expression_dropped:
  "map groupdict (finditer class_web class_expression) =
     [[(''name'', None), (''base'', None), (''name2'', Some ''Foo''), (''base2'', None),
       (''name3'', None), (''base3'', None)]]
   \<and> RulesGenerator_analyze_file (RulesGenerator language_of) class_expression ''src/foo.js'' s
        ''javascript'' = (s, None)"
  using foo_js_not_page
  by (simp add: RulesGenerator_analyze_file_def find_patterns_def self_catalog catalog_def
      pattern_group_javascript class_expression_import class_expression_class
      class_expression_function match_step_def groupdict_def and_then_def
      RulesGenerator_analyze_web_patterns_def class_expression_interface class_expression_jsx
      class_expression_hook class_expression_styled)

section \<open>The aggregator\<close>

lemma json_ext: "lower (splitext_ext ''settings.json'') = ''.json''"
  by code_simp

lemma json_not_code: "''.json'' \<notin> set code_extensions"
  by code_simp



text \<open>
  C3, as the code has it. The branch for configuration files lies inside the branch for
  code files: for the one file \<^verbatim>\<open>settings.json\<close>, whatever its content, the
  aggregator returns the initial structure, with no configuration file and no
  configuration entry.
\<close>

theorem config_file_not_recorded:
  "RulesGenerator_analyze_project_structure (RulesGenerator language_of)
     [(''.'', [''settings.json''])] read_text = initial_structure
   \<and> config_files initial_structure = []
   \<and> configurations (patterns initial_structure) = []"
  using json_not_code
  by (simp add: RulesGenerator_analyze_project_structure_def dir_step_def file_step_def json_ext
      note_directory_def RulesGenerator_analyze_directory_patterns_def directory_step_def Let_def
      initial_structure_def)




section \<open>What a match of a rule binds\<close>

text \<open>The rules for the starred forms unfold without end under the simplifier.\<close>

declare rmatch.simps(7,8) [simp del]

lemma strip_prefix_length:
  "strip_prefix p b r = Some (b', r') \<Longrightarrow> length r' + length p = length r"
  by (induction p b r rule: strip_prefix.induct) (auto split: if_splits)

lemma star_cases:
  assumes "s' \<in> set (rmatch (Star p) s)"
  obtains "s' = s"
  | s1 where "s1 \<in> set (rmatch p s)" "remaining s1 < remaining s" "s' \<in> set (rmatch (Star p) s1)"
  using assms by (subst (asm) rmatch.simps(7)) (auto split: if_splits)

lemma lstar_cases:
  assumes "s' \<in> set (rmatch (LStar p) s)"
  obtains "s' = s"
  | s1 where "s1 \<in> set (rmatch p s)" "remaining s1 < remaining s" "s' \<in> set (rmatch (LStar p) s1)"
  using assms by (subst (asm) rmatch.simps(8)) (auto split: if_splits)

lemma seq_cases:
  assumes "s' \<in> set (rmatch (Seq p q) s)"
  obtains s1 where "s1 \<in> set (rmatch p s)" "s' \<in> set (rmatch q s1)"
  using assms by auto

lemma cap_cases:
  assumes "s' \<in> set (rmatch (Cap n p) s)"
  obtains s1 where "s1 \<in> set (rmatch p s)" "s' = set_cap n s s1"
  using assms by auto

lemma rmatch_mono: "s' \<in> set (rmatch p s) \<Longrightarrow> remaining s' \<le> remaining s"
proof (induction p s arbitrary: s' rule: rmatch.induct)
  case (1 p b r g)
  then show ?case
    by (cases "strip_prefix p b r") (auto dest: strip_prefix_length)
next
  case (5 p q s)
  from 5(3) obtain s1 where s1: "s1 \<in> set (rmatch p s)" "s' \<in> set (rmatch q s1)"
    by (rule seq_cases)
  from 5(1) [OF s1(1)] 5(2) [OF s1] show ?case by simp
next
  case (7 p s)
  from 7(3) show ?case
  proof (cases rule: star_cases)
    case 1
    then show ?thesis by simp
  next
    case (2 s1)
    with 7(2) [of s1 s'] show ?thesis by simp
  qed
next
  case (8 p s)
  from 8(3) show ?case
  proof (cases rule: lstar_cases)
    case 1
    then show ?thesis by simp
  next
    case (2 s1)
    with 8(2) [of s1 s'] show ?thesis by simp
  qed
next
  case (9 n p s)
  from 9(2) obtain s1 where s1: "s1 \<in> set (rmatch p s)" "s' = set_cap n s s1"
    by (rule cap_cases)
  obtain b r g where s: "s = (b, r, g)" by (cases s)
  obtain b1 r1 g1 where s1': "s1 = (b1, r1, g1)" by (cases s1)
  from 9(1) [OF s1(1)] s1(2) s s1' show ?case by simp
next
  case (10 p s)
  then show ?case by (cases s) (auto split: list.splits)
qed (auto split: list.splits if_splits)


lemma rmatch_strict: "strict p \<Longrightarrow> s' \<in> set (rmatch p s) \<Longrightarrow> remaining s' < remaining s"
proof (induction p s arbitrary: s' rule: rmatch.induct)
  case (1 p b r g)
  from 1(2) obtain b' r' where sp: "strip_prefix p b r = Some (b', r')" and s': "s' = (b', r', g)"
    by (cases "strip_prefix p b r") auto
  from strip_prefix_length [OF sp] 1(1) s' show ?case by (cases p) auto
next
  case (5 p q s)
  from 5(4) obtain s1 where s1: "s1 \<in> set (rmatch p s)" "s' \<in> set (rmatch q s1)"
    by (rule seq_cases)
  from 5(3) have "strict p \<or> strict q" by simp
  then show ?case
  proof
    assume "strict p"
    from 5(1) [OF this s1(1)] rmatch_mono [OF s1(2)] show ?thesis by simp
  next
    assume "strict q"
    from 5(2) [OF s1(1) this s1(2)] rmatch_mono [OF s1(1)] show ?thesis by simp
  qed
next
  case (9 n p s)
  from 9(3) obtain s1 where s1: "s1 \<in> set (rmatch p s)" "s' = set_cap n s s1"
    by (rule cap_cases)
  obtain b r g where s: "s = (b, r, g)" by (cases s)
  obtain b1 r1 g1 where s1': "s1 = (b1, r1, g1)" by (cases s1)
  from 9(2) have "strict p" by simp
  from 9(1) [OF this s1(1)] s1(2) s s1' show ?case by simp
qed (auto split: list.splits if_splits)

lemma caps_set_cap:
  "caps_of (set_cap n s s1) = AList.update n (take (remaining s - remaining s1) (fst (snd s))) (caps_of s1)"
  by (cases s; cases s1) simp

lemma rmatch_other_groups:
  "k \<notin> set (group_names_raw p) \<Longrightarrow> s' \<in> set (rmatch p s) \<Longrightarrow>
   map_of (caps_of s') k = map_of (caps_of s) k"
proof (induction p s arbitrary: s' rule: rmatch.induct)
  case (1 p b r g)
  then show ?case by (cases "strip_prefix p b r") auto
next
  case (5 p q s)
  from 5(4) obtain s1 where s1: "s1 \<in> set (rmatch p s)" "s' \<in> set (rmatch q s1)"
    by (rule seq_cases)
  from 5(3) have "k \<notin> set (group_names_raw p)" "k \<notin> set (group_names_raw q)" by simp_all
  with 5(1) [OF _ s1(1)] 5(2) [OF s1(1) _ s1(2)] show ?case by simp
next
  case (7 p s)
  from 7(4) show ?case
  proof (cases rule: star_cases)
    case 1
    then show ?thesis by simp
  next
    case (2 s1)
    from 7(3) have k: "k \<notin> set (group_names_raw p)" "k \<notin> set (group_names_raw (Star p))" by simp_all
    from 7(1) [OF k(1) 2(1)] 7(2) [OF 2(1) 2(2) k(2) 2(3)] show ?thesis by simp
  qed
next
  case (8 p s)
  from 8(4) show ?case
  proof (cases rule: lstar_cases)
    case 1
    then show ?thesis by simp
  next
    case (2 s1)
    from 8(3) have k: "k \<notin> set (group_names_raw p)" "k \<notin> set (group_names_raw (LStar p))" by simp_all
    from 8(1) [OF k(1) 2(1)] 8(2) [OF 2(1) 2(2) k(2) 2(3)] show ?thesis by simp
  qed
next
  case (9 n p s)
  from 9(3) obtain s1 where s1: "s1 \<in> set (rmatch p s)" "s' = set_cap n s s1"
    by (rule cap_cases)
  from 9(2) have k: "k \<noteq> n" "k \<notin> set (group_names_raw p)" by auto
  from 9(1) [OF k(2) s1(1)] k(1) s1(2) show ?case
    by (simp add: caps_set_cap update_conv')
next
  case (10 p s)
  show ?case
  proof (cases "rmatch p s")
    case Nil
    with 10(3) show ?thesis by simp
  next
    case (Cons s1 rest)
    obtain b1 r1 g1 where s1: "s1 = (b1, r1, g1)" by (cases s1)
    from Cons have "s1 \<in> set (rmatch p s)" by simp
    from 10(1) [OF _ this] 10(2) have "map_of (caps_of s1) k = map_of (caps_of s) k" by simp
    with 10(3) Cons s1 show ?thesis by (cases s) simp
  qed
next
  case (11 p s)
  then show ?case by (auto split: list.splits)
qed (auto split: list.splits if_splits)

lemma rmatch_binds:
  "binds P p \<Longrightarrow> s' \<in> set (rmatch p s) \<Longrightarrow>
   \<exists>k \<in> set (group_names_raw p). P k \<and> (\<exists>v. map_of (caps_of s') k = Some v \<and> v \<noteq> [])"
proof (induction p s arbitrary: s' rule: rmatch.induct)
  case (5 p q s)
  from 5(4) obtain s1 where s1: "s1 \<in> set (rmatch p s)" "s' \<in> set (rmatch q s1)"
    by (rule seq_cases)
  from 5(3) consider "binds P p" "list_all (\<lambda>n. \<not> P n) (group_names_raw q)" | "binds P q"
    by auto
  then show ?case
  proof cases
    case 1
    from 5(1) [OF 1(1) s1(1)] obtain k v where
      k: "k \<in> set (group_names_raw p)" "P k" "map_of (caps_of s1) k = Some v" "v \<noteq> []" by auto
    from 1(2) k(2) have "k \<notin> set (group_names_raw q)" by (auto simp: list_all_iff)
    from rmatch_other_groups [OF this s1(2)] k show ?thesis by auto
  next
    case 2
    from 5(2) [OF s1(1) 2 s1(2)] show ?thesis by auto
  qed
next
  case (6 p q s)
  from 6(3) have b: "binds P p" "binds P q" by simp_all
  from 6(4) have "s' \<in> set (rmatch p s) \<or> s' \<in> set (rmatch q s)" by simp
  then show ?case
  proof
    assume "s' \<in> set (rmatch p s)"
    from 6(1) [OF b(1) this] show ?thesis by auto
  next
    assume "s' \<in> set (rmatch q s)"
    from 6(2) [OF b(2) this] show ?thesis by auto
  qed
next
  case (9 n p s)
  from 9(3) obtain s1 where s1: "s1 \<in> set (rmatch p s)" "s' = set_cap n s s1"
    by (rule cap_cases)
  from 9(2) have n: "P n" "strict p" by simp_all
  from rmatch_strict [OF n(2) s1(1)] have lt: "remaining s1 < remaining s" .
  obtain b r g where s: "s = (b, r, g)" by (cases s)
  from lt s have "take (remaining s - remaining s1) (fst (snd s)) \<noteq> []" by auto
  with n(1) s1(2) show ?case by (auto simp: caps_set_cap update_conv')
qed simp_all

lemma matches_here_origin:
  assumes "m \<in> set (fst (matches_here p b r))"
  shows "\<exists>s' \<in> set (rmatch p (b, r, [])). m = mk_match p r s'"
proof (cases "rmatch p (b, r, [])")
  case Nil
  with assms show ?thesis by (simp add: matches_here_def)
next
  case (Cons s1 rest)
  show ?thesis
  proof (cases "remaining s1 < length r")
    case True
    with Cons assms show ?thesis by (simp add: matches_here_def)
  next
    case False
    show ?thesis
    proof (cases "filter (\<lambda>s. remaining s < length r) rest")
      case Nil
      with False Cons assms show ?thesis by (simp add: matches_here_def)
    next
      case (Cons s2 rest2)
      then have "s2 \<in> set (filter (\<lambda>s. remaining s < length r) rest)" by simp
      then have "s2 \<in> set rest" by simp
      with False \<open>rmatch p (b, r, []) = s1 # rest\<close> Cons assms show ?thesis
        by (auto simp: matches_here_def)
    qed
  qed
qed

lemma scan_origin:
  "m \<in> set (scan p b r k) \<Longrightarrow> \<exists>b' r'. \<exists>s' \<in> set (rmatch p (b', r', [])). m = mk_match p r' s'"
proof (induction r arbitrary: b k)
  case Nil
  then have "m \<in> set (fst (matches_here p b []))" by (auto split: if_splits)
  from matches_here_origin [OF this] show ?case by blast
next
  case (Cons c cs)
  show ?case
  proof (cases "k = 0")
    case False
    with Cons show ?thesis by auto
  next
    case True
    obtain ms j where mh: "matches_here p b (c # cs) = (ms, j)" by (cases "matches_here p b (c # cs)")
    with True Cons(2) have "m \<in> set ms \<or> m \<in> set (scan p (c # b) cs (j - 1))" by auto
    then show ?thesis
    proof
      assume "m \<in> set ms"
      with mh have "m \<in> set (fst (matches_here p b (c # cs)))" by simp
      from matches_here_origin [OF this] show ?thesis by blast
    next
      assume "m \<in> set (scan p (c # b) cs (j - 1))"
      from Cons(1) [OF this] show ?thesis .
    qed
  qed
qed

lemma first_truthy_finds:
  "k \<in> set ns \<Longrightarrow> P k \<Longrightarrow> f k = Some v \<Longrightarrow> v \<noteq> [] \<Longrightarrow>
   \<exists>x. first_truthy P (map (\<lambda>n. (n, f n)) ns) = Some x \<and> x \<noteq> []"
  by (induction ns) (auto split: option.splits)

lemma group_names_set: "set (group_names p) = set (group_names_raw p)"
  by (simp add: group_names_def)

lemma finditer_binds:
  assumes "binds P p" and "m \<in> set (finditer p content)"
  shows "\<exists>x. first_truthy P (groupdict m) = Some x \<and> x \<noteq> []"
proof -
  from assms(2) obtain b r s' where s': "s' \<in> set (rmatch p (b, r, []))" "m = mk_match p r s'"
    unfolding finditer_def by (blast dest: scan_origin)
  from rmatch_binds [OF assms(1) s'(1)] obtain k v where
    k: "k \<in> set (group_names_raw p)" "P k" "map_of (caps_of s') k = Some v" "v \<noteq> []" by auto
  have "groupdict m = map (\<lambda>n. (n, map_of (caps_of s') n)) (group_names p)"
    using s'(2) by (cases s') (simp add: groupdict_def mk_match_def)
  with first_truthy_finds [of k "group_names p" P "map_of (caps_of s')" v] k show ?thesis
    by (simp add: group_names_set)
qed

lemma import_rules_bind:
  "binds (\<lambda>k. startswith k ''module'') (PATTERNS_kind PImport g)"
  by (cases g) (simp_all add: import_python_def import_web_def import_system_def Plus_def Opt_def
      ws_def ws1_def quote_def not_quote_def modchar_def)

section \<open>Imports\<close>

lemma import_step:
  "match_step PImport rel_path s m = (case module_of m of None \<Rightarrow> s | Some module \<Rightarrow> add_import module s)"
  by (simp add: match_step_def module_of_def)

lemma import_loop:
  "class_patterns (patterns (foldl (match_step PImport rel_path) s ms)) = class_patterns (patterns s)
   \<and> function_patterns (patterns (foldl (match_step PImport rel_path) s ms)) =
       function_patterns (patterns s)
   \<and> dependencies (foldl (match_step PImport rel_path) s ms) =
       (\<lambda>k. if k \<in> set (List.map_filter module_of ms) then Some True else dependencies s k)"
proof (induction ms arbitrary: s)
  case Nil
  show ?case by (simp add: List.map_filter_simps)
next
  case (Cons m ms)
  show ?case
  proof (cases "module_of m")
    case None
    with Cons [of s] show ?thesis by (simp add: import_step List.map_filter_simps)
  next
    case (Some module)
    with Cons [of "add_import module s"] show ?thesis
      by (auto simp: import_step List.map_filter_simps add_import_def)
  qed
qed

text \<open>
  C5. Every match of an import rule of the catalog has a non-empty group whose name
  begins with \<^verbatim>\<open>module\<close>, and its step sets the dependency of the first such group to
  \<^verbatim>\<open>True\<close> (a module already present leaves the dependencies unchanged). The loop over
  the import matches leaves the class records and the function records as they were,
  and the dependencies after it are the ones before it plus, with \<^verbatim>\<open>True\<close>, the module
  of every match.
\<close>

theorem import_matches_update_dependencies:
  "(\<forall>m \<in> set (finditer (by_kind catalog PImport g) content).
      \<exists>module. module \<noteq> [] \<and> module_of m = Some module
        \<and> match_step PImport rel_path t m = add_import module t
        \<and> dependencies (match_step PImport rel_path t m) = (dependencies t)(module \<mapsto> True)
        \<and> class_patterns (patterns (match_step PImport rel_path t m)) = class_patterns (patterns t)
        \<and> function_patterns (patterns (match_step PImport rel_path t m)) =
            function_patterns (patterns t))
   \<and> (dependencies t module = Some True \<longrightarrow> dependencies (add_import module t) = dependencies t)
   \<and> class_patterns (patterns (find_patterns (RulesGenerator language_of) content rel_path g s PImport)) =
       class_patterns (patterns s)
   \<and> function_patterns (patterns (find_patterns (RulesGenerator language_of) content rel_path g s PImport)) =
       function_patterns (patterns s)
   \<and> dependencies (find_patterns (RulesGenerator language_of) content rel_path g s PImport) =
       (\<lambda>k. if k \<in> set (List.map_filter module_of (finditer (by_kind catalog PImport g) content))
            then Some True else dependencies s k)"
proof (intro conjI ballI impI)
  fix m assume "m \<in> set (finditer (by_kind catalog PImport g) content)"
  then have "m \<in> set (finditer (PATTERNS_kind PImport g) content)" by (simp add: catalog_def)
  from finditer_binds [OF import_rules_bind this]
  obtain x where x: "module_of m = Some x" "x \<noteq> []" by (auto simp: module_of_def)
  then show "\<exists>module. module \<noteq> [] \<and> module_of m = Some module
        \<and> match_step PImport rel_path t m = add_import module t
        \<and> dependencies (match_step PImport rel_path t m) = (dependencies t)(module \<mapsto> True)
        \<and> class_patterns (patterns (match_step PImport rel_path t m)) = class_patterns (patterns t)
        \<and> function_patterns (patterns (match_step PImport rel_path t m)) =
            function_patterns (patterns t)"
    by (simp add: import_step add_import_def)
next
  assume "dependencies t module = Some True"
  then show "dependencies (add_import module t) = dependencies t"
    by (auto simp: add_import_def)
qed (simp_all add: find_patterns_def self_catalog import_loop)

lemma java_imports: "map module_of (finditer import_web java_imports_example) =
  [Some ''java.util.List'', Some ''java.io.File'', Some ''java.util.List'']"
  by code_simp

lemma java_imports_modules: "List.map_filter module_of (finditer import_web java_imports_example) =
  [''java.util.List'', ''java.io.File'', ''java.util.List'']"
  by code_simp

lemma java_imports_matches: "finditer (by_kind catalog PImport Web) java_imports_example =
  finditer import_web java_imports_example"
  by (simp add: catalog_def)

theorem import_matches_update_dependencies_witness:
  "map module_of (finditer (by_kind catalog PImport Web) java_imports_example) =
     [Some ''java.util.List'', Some ''java.io.File'', Some ''java.util.List'']
   \<and> dependencies (find_patterns (RulesGenerator sample_language_of) java_imports_example
         ''src/A.java'' Web initial_structure PImport) =
       [''java.util.List'' \<mapsto> True, ''java.io.File'' \<mapsto> True]
   \<and> class_patterns (patterns (find_patterns (RulesGenerator sample_language_of) java_imports_example
         ''src/A.java'' Web initial_structure PImport)) = []
   \<and> function_patterns (patterns (find_patterns (RulesGenerator sample_language_of)
         java_imports_example ''src/A.java'' Web initial_structure PImport)) = []"
proof -
  have mf: "List.map_filter module_of (finditer (by_kind catalog PImport Web) java_imports_example) =
      [''java.util.List'', ''java.io.File'', ''java.util.List'']"
    by (simp add: java_imports_matches java_imports_modules)
  from import_matches_update_dependencies [of Web java_imports_example "''src/A.java''"
      initial_structure "''java.util.List''" sample_language_of initial_structure]
  show ?thesis
    using java_imports
    by (auto simp: mf java_imports_matches initial_structure_def)
qed

section \<open>Directory names\<close>

lemma directory_step_names:
  "map name_pattern (directory_patterns (patterns (foldl (\<lambda>s item. directory_step item s) s dir_stats))) =
   map name_pattern (directory_patterns (patterns s)) @
     map (\<lambda>item. naming_convention (basename (fst item))) (filter (\<lambda>item. fst item \<noteq> []) dir_stats)"
  by (induction dir_stats arbitrary: s) (auto simp: directory_step_def split: prod.splits)

text \<open>
  C6. The naming convention of a directory is a function of its basename with the
  priority lowercase, uppercase, snake_case, kebab-case, mixed, the first test that
  holds deciding; so a name that is neither lowercase nor uppercase and has an
  underscore is \<^verbatim>\<open>snake_case\<close>, not \<^verbatim>\<open>mixed\<close>. Both copies of the directory analysis
  append, for every directory but the root and in the order of \<^verbatim>\<open>dir_stats\<close>, a record
  whose \<^verbatim>\<open>name_pattern\<close> is that convention.
\<close>

theorem directory_naming_priority:
  "naming_convention d \<in> set [''lowercase'', ''uppercase'', ''snake_case'', ''kebab-case'', ''mixed'']
   \<and> (islower d \<longrightarrow> naming_convention d = ''lowercase'')
   \<and> (\<not> islower d \<and> isupper d \<longrightarrow> naming_convention d = ''uppercase'')
   \<and> (\<not> islower d \<and> \<not> isupper d \<and> CHR ''_'' \<in> set d \<longrightarrow>
        naming_convention d = ''snake_case'' \<and> naming_convention d \<noteq> ''mixed'')
   \<and> (\<not> islower d \<and> \<not> isupper d \<and> CHR ''_'' \<notin> set d \<and> CHR ''-'' \<in> set d \<longrightarrow>
        naming_convention d = ''kebab-case'')
   \<and> (\<not> islower d \<and> \<not> isupper d \<and> CHR ''_'' \<notin> set d \<and> CHR ''-'' \<notin> set d \<longrightarrow>
        naming_convention d = ''mixed'')
   \<and> map name_pattern (directory_patterns (patterns (analyze_directory_patterns s dir_stats))) =
       map name_pattern (directory_patterns (patterns s)) @
         map (\<lambda>item. naming_convention (basename (fst item))) (filter (\<lambda>item. fst item \<noteq> []) dir_stats)
   \<and> RulesGenerator_analyze_directory_patterns s dir_stats = analyze_directory_patterns s dir_stats"
  by (simp add: naming_convention_def analyze_directory_patterns_def
      RulesGenerator_analyze_directory_patterns_def directory_step_names)

lemma my_dir: "\<not> islower ''My_Dir'' \<and> \<not> isupper ''My_Dir'' \<and> CHR ''_'' \<in> set ''My_Dir''"
  by code_simp

lemma my_dir_base: "basename ''src/My_Dir'' = ''My_Dir''"
  by code_simp

theorem directory_naming_priority_witness:
  "\<not> islower ''My_Dir'' \<and> \<not> isupper ''My_Dir'' \<and> CHR ''_'' \<in> set ''My_Dir''
   \<and> naming_convention ''My_Dir'' = ''snake_case''
   \<and> map name_pattern (directory_patterns (patterns
        (analyze_directory_patterns initial_structure
           [([], fresh_stats), (''src/My_Dir'', fresh_stats)]))) = [''snake_case'']"
  using directory_naming_priority [of "''My_Dir''" initial_structure
      "[([], fresh_stats), (''src/My_Dir'', fresh_stats)]"] my_dir
  by (simp add: my_dir_base initial_structure_def)

section \<open>\<^verbatim>\<open>analyze_file_content\<close> returns\<close>

lemma first_group_nonempty: "first_group gs = Some x \<Longrightarrow> x \<noteq> []"
  by (induction gs rule: first_group.induct) (auto split: if_splits)

lemma detected_names:
  "f \<in> set (detected cfg ms) \<Longrightarrow>
   fst f \<noteq> [] \<and> lower (fst f) \<notin> IGNORED_KEYWORDS cfg \<and> snd f = ''Function detected''"
proof (induction ms)
  case Nil
  then show ?case by simp
next
  case (Cons groups ms)
  from Cons first_group_nonempty [of groups] show ?case
    by (auto split: option.splits if_splits)
qed

lemma body_names:
  assumes "analyze_file_content_body cfg finder read_text file_path = Inr (fs, n)" and "f \<in> set fs"
  shows "fst f \<noteq> [] \<and> lower (fst f) \<notin> IGNORED_KEYWORDS cfg \<and> snd f = ''Function detected''"
proof -
  from assms have "fs = [] \<or>
      (\<exists>content. fs = concat (map (pattern_functions cfg finder content) (FUNCTION_PATTERNS cfg)))"
    by (auto simp: analyze_file_content_body_def split: if_splits sum.splits)
  with assms(2) obtain content item where "f \<in> set (pattern_functions cfg finder content item)"
    by auto
  then show ?thesis
    by (auto simp: pattern_functions_def split: sum.splits dest: detected_names)
qed

text \<open>
  C10. \<^verbatim>\<open>analyze_file_content\<close> returns a pair for every path: \<^verbatim>\<open>([], 0)\<close> for a
  binary or non-code extension, when reading the file raises, and when the extension
  is not a code extension; otherwise the functions detected by the patterns in their
  order, a pattern whose search raises giving none and the others theirs, with the
  number of lines. Every name returned is non-empty and its lowercase form is no
  ignored keyword.
\<close>

theorem analyze_file_content_total:
  "(is_binary_file cfg file_path \<longrightarrow> analyze_file_content cfg finder read_text file_path = ([], 0))
   \<and> (read_text file_path = Inl e \<longrightarrow> analyze_file_content cfg finder read_text file_path = ([], 0))
   \<and> (lower (splitext_ext file_path) \<notin> CODE_EXTENSIONS cfg \<longrightarrow>
        analyze_file_content cfg finder read_text file_path = ([], 0))
   \<and> (\<not> is_binary_file cfg file_path \<and> read_text file_path = Inr content
        \<and> lower (splitext_ext file_path) \<in> CODE_EXTENSIONS cfg \<longrightarrow>
        analyze_file_content cfg finder read_text file_path =
          (concat (map (pattern_functions cfg finder content) (FUNCTION_PATTERNS cfg)),
           split_lines_count content))
   \<and> (finder (snd item) content = Inl e' \<longrightarrow> pattern_functions cfg finder content item = [])
   \<and> (finder (snd item) content = Inr ms \<longrightarrow> pattern_functions cfg finder content item = detected cfg ms)
   \<and> (\<forall>f \<in> set (fst (analyze_file_content cfg finder read_text file_path)).
        fst f \<noteq> [] \<and> lower (fst f) \<notin> IGNORED_KEYWORDS cfg)"
proof (intro conjI impI ballI)
  fix f assume f: "f \<in> set (fst (analyze_file_content cfg finder read_text file_path))"
  show "fst f \<noteq> []" "lower (fst f) \<notin> IGNORED_KEYWORDS cfg"
    using f body_names [of cfg finder read_text file_path _ _ f]
    by (auto simp: analyze_file_content_def split: sum.splits)
qed (auto simp: analyze_file_content_def analyze_file_content_body_def pattern_functions_def
      split: sum.splits)

lemma sample_exts:
  "lower (splitext_ext ''logo.png'') = ''.png''"
  "lower (splitext_ext ''gone.py'') = ''.py''"
  "lower (splitext_ext ''a.py'') = ''.py''"
  by code_simp+

lemma sample_lower: "lower ''foo'' = ''foo''" "lower ''If'' = ''if''"
  by code_simp+

lemma sample_lines: "split_lines_count python_example = 2"
  by code_simp

theorem analyze_file_content_total_witness:
  "is_binary_file sample_config ''logo.png''
   \<and> analyze_file_content sample_config sample_finder sample_reader ''logo.png'' = ([], 0)
   \<and> sample_reader ''gone.py'' = Inl OSError
   \<and> analyze_file_content sample_config sample_finder sample_reader ''gone.py'' = ([], 0)
   \<and> \<not> is_binary_file sample_config ''a.py''
   \<and> sample_reader ''a.py'' = Inr python_example
   \<and> sample_finder 0 python_example = Inl ReError
   \<and> analyze_file_content sample_config sample_finder sample_reader ''a.py'' =
       ([(''foo'', ''Function detected'')], 2)"
proof -
  have bin: "is_binary_file sample_config ''logo.png''" "\<not> is_binary_file sample_config ''a.py''"
    by (simp_all add: is_binary_file_def sample_exts sample_config_def)
  have rd: "sample_reader ''gone.py'' = Inl OSError" "sample_reader ''a.py'' = Inr python_example"
    by (simp_all add: sample_reader_def)
  have code: "lower (splitext_ext ''a.py'') \<in> CODE_EXTENSIONS sample_config"
    by (simp add: sample_exts sample_config_def)
  have fns: "concat (map (pattern_functions sample_config sample_finder python_example)
                (FUNCTION_PATTERNS sample_config)) = [(''foo'', ''Function detected'')]"
    by (simp add: pattern_functions_def sample_finder_def sample_config_def sample_lower)
  from analyze_file_content_total [of sample_config "''logo.png''" sample_finder sample_reader]
    analyze_file_content_total [of sample_config "''gone.py''" sample_finder sample_reader OSError]
    analyze_file_content_total [of sample_config "''a.py''" sample_finder sample_reader _
      python_example]
  show ?thesis
    using bin rd code by (simp add: fns sample_lines sample_finder_def)
qed

section \<open>A TypeScript class\<close>

lemma widget_import: "finditer import_web widget_example = []"
  by code_simp

lemma widget_class: "finditer class_web widget_example =
  [\<lparr>m_text = ''export class Widget extends Base {'',
     m_caps = [(''name'', ''Widget''), (''base'', ''Base '')],
     m_names = [''name'', ''base'', ''name2'', ''base2'', ''name3'', ''base3'']\<rparr>]"
  by code_simp

lemma widget_function: "finditer function_web widget_example = []"
  by code_simp

lemma widget_interface: "finditer common_interface widget_example = []"
  by code_simp

lemma widget_jsx: "finditer common_jsx_component widget_example = []"
  by code_simp

lemma widget_hook: "finditer common_react_hook widget_example = []"
  by code_simp

lemma widget_styled: "finditer common_styled_component widget_example = []"
  by code_simp

lemma widget_not_page:
  "\<not> (str_in ''pages/'' ''src/widget.ts'' \<or> str_in ''app/'' ''src/widget.ts'')"
  by code_simp

lemma strip_widget_base: "strip ''Base '' = ''Base''"
  by code_simp

text \<open>
  X1. Analyzing, as TypeScript, the file \<^verbatim>\<open>src/widget.ts\<close> with the content
  \<^verbatim>\<open>export class Widget extends Base {}\<close> ends without an exception and appends one
  record, to the class records: name \<^verbatim>\<open>Widget\<close>, type \<^verbatim>\<open>class\<close>, base \<^verbatim>\<open>Base\<close>.
\<close>

theorem widget_class_record:
  "RulesGenerator_analyze_file (RulesGenerator language_of) widget_example ''src/widget.ts'' s
     ''typescript'' =
   (add_class_pattern [(''name'', Some ''Widget''), (''file'', Some ''src/widget.ts''),
      (''type'', Some ''class''), (''base'', Some ''Base'')] s, None)"
  using widget_not_page
  by (simp add: RulesGenerator_analyze_file_def find_patterns_def self_catalog catalog_def
      pattern_group_typescript widget_import widget_class widget_function match_step_def
      groupdict_def optional_field_def and_then_def strip_widget_base
      RulesGenerator_analyze_web_patterns_def widget_interface widget_jsx widget_hook
      widget_styled)


end
